theory Spec2Isabelle
  imports Complex_Main "HOL-Library.AList"
begin

section \<open>Strings\<close>

text \<open>
  A JavaScript string is modelled as a \<^typ>\<open>string\<close>, one \<^typ>\<open>char\<close> per code unit.
  \<open>toLowerCase\<close> and \<open>toUpperCase\<close> map the ASCII letters; every other code unit is
  left as it is (the locale-independent case mapping of the engine agrees with this on
  ASCII text, which is what all patterns of the program are written in).
\<close>

definition lowerChar :: "char \<Rightarrow> char" where
  "lowerChar c =
     (let n = (of_char c :: nat) in if 65 \<le> n \<and> n \<le> 90 then char_of (n + 32) else c)"

definition upperChar :: "char \<Rightarrow> char" where
  "upperChar c =
     (let n = (of_char c :: nat) in if 97 \<le> n \<and> n \<le> 122 then char_of (n - 32) else c)"

definition toLowerCase :: "string \<Rightarrow> string" where
  "toLowerCase s = map lowerChar s"

definition toUpperCase :: "string \<Rightarrow> string" where
  "toUpperCase s = map upperChar s"

text \<open>\<open>s.startsWith(p)\<close> and \<open>s.includes(p)\<close>: \<open>p\<close> occurs in \<open>s\<close> as a contiguous block.\<close>

fun startsWith :: "string \<Rightarrow> string \<Rightarrow> bool" where
  "startsWith s [] = True"
| "startsWith [] (p # ps) = False"
| "startsWith (c # cs) (p # ps) = (c = p \<and> startsWith cs ps)"

fun includes_str :: "string \<Rightarrow> string \<Rightarrow> bool" where
  "includes_str [] p = (p = [])"
| "includes_str (c # cs) p = (startsWith (c # cs) p \<or> includes_str cs p)"

section \<open>Values and records\<close>

text \<open>
  The values a field of a parsed report row can hold: \<open>undefined\<close> (also what reading a
  key that the row does not have gives), \<open>null\<close>, booleans, finite numbers and strings;
  nested arrays and objects are not modelled.
  A row is the list of its own entries in the order \<open>Object.entries\<close> enumerates them,
  which is the order in which the keys were inserted, except that keys written as array
  indices (\<open>"0"\<close>, \<open>"1"\<close>, ...) are enumerated first, in ascending order.
  \<open>row[key]\<close> reads the entry stored under exactly that key; keys are taken not to name
  a member of \<open>Object.prototype\<close>, which \<open>row[key]\<close> would find on a row lacking the key.
\<close>

datatype jsval = Undefined | Null | Bool bool | Num real | Str string

type_synonym row = "(string \<times> jsval) list"

definition getProp :: "row \<Rightarrow> string \<Rightarrow> jsval" where
  "getProp row key = (case map_of row key of None \<Rightarrow> Undefined | Some v \<Rightarrow> v)"

text \<open>The test \<open>v === null || v === undefined || v === ""\<close> of \<open>pickField\<close>.\<close>

definition isBlank :: "jsval \<Rightarrow> bool" where
  "isBlank v = (v = Null \<or> v = Undefined \<or> v = Str [])"

section \<open>pickField\<close>

text \<open>The first loop of \<open>pickField\<close>: the exact keys, in the order given.\<close>

fun exactPhase :: "row \<Rightarrow> string list \<Rightarrow> jsval option" where
  "exactPhase row [] = None"
| "exactPhase row (key # keys) =
     (if getProp row key \<noteq> Undefined \<and> getProp row key \<noteq> Null \<and> getProp row key \<noteq> Str []
      then Some (getProp row key)
      else exactPhase row keys)"

text \<open>The second loop: the entries of the row, against the lower-cased fuzzy parts.\<close>

fun fuzzyPhase :: "string list \<Rightarrow> row \<Rightarrow> jsval option" where
  "fuzzyPhase lowerParts [] = None"
| "fuzzyPhase lowerParts ((k, v) # es) =
     (if v = Null \<or> v = Undefined \<or> v = Str [] then fuzzyPhase lowerParts es
      else if list_ex (\<lambda>p. includes_str (toLowerCase k) p) lowerParts then Some v
      else fuzzyPhase lowerParts es)"

definition pickField :: "row \<Rightarrow> string list \<Rightarrow> string list \<Rightarrow> jsval \<Rightarrow> jsval" where
  "pickField row exactKeys fuzzyParts fallback =
     (case exactPhase row exactKeys of
        Some v \<Rightarrow> v
      | None \<Rightarrow>
          (case fuzzyPhase (map toLowerCase fuzzyParts) row of
             Some v \<Rightarrow> v
           | None \<Rightarrow> fallback))"

section \<open>Conversions\<close>

text \<open>
  \<open>v || ""\<close> keeps a truthy value and replaces every other one by the empty string.
  \<open>String(v)\<close> gives the text of a value; the text of a number comes from the engine's
  number formatting, which is taken as the parameter \<open>numText\<close>.
\<close>

definition truthy :: "jsval \<Rightarrow> bool" where
  "truthy v =
     (case v of Undefined \<Rightarrow> False | Null \<Rightarrow> False | Bool b \<Rightarrow> b
      | Num x \<Rightarrow> x \<noteq> 0 | Str s \<Rightarrow> s \<noteq> [])"

definition orEmpty :: "jsval \<Rightarrow> jsval" where
  "orEmpty v = (if truthy v then v else Str [])"

fun String_js :: "(real \<Rightarrow> string) \<Rightarrow> jsval \<Rightarrow> string" where
  "String_js numText Undefined = ''undefined''"
| "String_js numText Null = ''null''"
| "String_js numText (Bool b) = (if b then ''true'' else ''false'')"
| "String_js numText (Num x) = numText x"
| "String_js numText (Str s) = s"

text \<open>The decimal text of a natural number (an HTTP status code in a template string).\<close>

definition digitChar :: "nat \<Rightarrow> char" where
  "digitChar d = char_of (48 + d)"

function showNat :: "nat \<Rightarrow> string" where
  "showNat n = (if n < 10 then [digitChar n] else showNat (n div 10) @ [digitChar (n mod 10)])"
  by pat_completeness auto
termination
  by (relation "measure id") auto

declare showNat.simps [simp del]

datatype err = Error string | TypeError | SyntaxError | NetworkFailure

section \<open>The nakshatra view: classes of a table row\<close>

text \<open>
  \<open>buildNakshatraRows\<close>, the block "visual classes": the class of the bias cell and the
  class of the quality cell, from the resolved \<open>biasRaw\<close> and \<open>quality\<close>.
\<close>

definition biasClass :: "(real \<Rightarrow> string) \<Rightarrow> jsval \<Rightarrow> string" where
  "biasClass numText biasRaw =
     (let biasLower = toLowerCase (String_js numText (orEmpty biasRaw));
          c0 = [];
          c1 = (if includes_str biasLower ''bull'' then ''bias-bull'' else c0);
          c2 = (if includes_str biasLower ''bear'' then ''bias-bear'' else c1)
      in if includes_str biasLower ''strong'' then c2 @ '' bias-strong'' else c2)"

definition qualClass :: "(real \<Rightarrow> string) \<Rightarrow> jsval \<Rightarrow> string" where
  "qualClass numText quality =
     (let qualityLower = toLowerCase (String_js numText (orEmpty quality))
      in if includes_str qualityLower ''soft'' \<or> includes_str qualityLower ''mridu''
         then ''qual-soft''
         else if includes_str qualityLower ''sharp'' \<or> includes_str qualityLower ''tikshna''
         then ''qual-sharp''
         else [])"

text \<open>
  A rendered row of the nakshatra table: the session cell and the two classes above.
  The text cells and the formatted score are not part of the model.
\<close>

record nak_tr =
  sessCell :: string
  biasCls :: string
  qualCls :: string

definition renderNakRow :: "(real \<Rightarrow> string) \<Rightarrow> string \<Rightarrow> row \<Rightarrow> nak_tr" where
  "renderNakRow numText sessKey row =
     (let quality = pickField row [''nakshatra_quality''] [''quality'', ''guna'', ''nature''] (Str []);
          biasRaw = pickField row [''nakshatra_bias''] [''bias'', ''direction''] (Str [])
      in \<lparr>sessCell = toUpperCase sessKey,
          biasCls = biasClass numText biasRaw,
          qualCls = qualClass numText quality\<rparr>)"

text \<open>
  The value stored under a session key: an array of rows (each of them an object), or
  something that a \<open>for ... of\<close> loop cannot iterate (a number, \<open>null\<close>, an object), on
  which the loop raises a TypeError.
\<close>

datatype session_rows = Rows "row list" | NotIterable

type_synonym sessions = "(string \<times> session_rows) list"

text \<open>
  \<open>buildNakshatraRows\<close> appends each row to the table body as soon as it is built, so the
  model returns the body reached together with the error that stopped the loop, if any.
\<close>

fun buildNakshatraRows ::
  "(real \<Rightarrow> string) \<Rightarrow> sessions \<Rightarrow> nak_tr list \<Rightarrow> nak_tr list \<times> err option" where
  "buildNakshatraRows numText [] tbody = (tbody, None)"
| "buildNakshatraRows numText ((sessKey, NotIterable) # rest) tbody = (tbody, Some TypeError)"
| "buildNakshatraRows numText ((sessKey, Rows rows) # rest) tbody =
     buildNakshatraRows numText rest (tbody @ map (renderNakRow numText sessKey) rows)"

section \<open>The nakshatra view: session summary\<close>

record dir_stats =
  bull :: nat
  bear :: nat
  neutral :: nat
  strong :: nat
  total_dir :: nat

definition zeroDirStats :: dir_stats where
  "zeroDirStats = \<lparr>bull = 0, bear = 0, neutral = 0, strong = 0, total_dir = 0\<rparr>"

text \<open>The lower-cased bias text of a row, as \<open>buildSummary\<close> computes it.\<close>

definition biasOf :: "(real \<Rightarrow> string) \<Rightarrow> row \<Rightarrow> string" where
  "biasOf numText row =
     toLowerCase (String_js numText
       (orEmpty (pickField row [''nakshatra_bias''] [''bias'', ''direction''] (Str []))))"

text \<open>The body of the inner loop of \<open>buildSummary\<close>: one row counted into the session's stats.\<close>

definition countRow :: "(real \<Rightarrow> string) \<Rightarrow> row \<Rightarrow> dir_stats \<Rightarrow> dir_stats" where
  "countRow numText row st =
     (let bias = biasOf numText row;
          st1 = st\<lparr>total_dir := total_dir st + 1\<rparr>;
          st2 = (if bias = [] then st1\<lparr>neutral := neutral st1 + 1\<rparr>
                 else if includes_str bias ''bull'' then st1\<lparr>bull := bull st1 + 1\<rparr>
                 else if includes_str bias ''bear'' then st1\<lparr>bear := bear st1 + 1\<rparr>
                 else st1\<lparr>neutral := neutral st1 + 1\<rparr>)
      in if includes_str bias ''strong'' then st2\<lparr>strong := strong st2 + 1\<rparr> else st2)"

fun countRows :: "(real \<Rightarrow> string) \<Rightarrow> row list \<Rightarrow> dir_stats \<Rightarrow> dir_stats" where
  "countRows numText [] st = st"
| "countRows numText (row # rows) st = countRows numText rows (countRow numText row st)"

text \<open>
  The outer loop. \<open>stats\<close> starts as the plain object \<open>{}\<close>, kept as the list of its own
  entries. Reading \<open>stats[sessKey]\<close> also finds what a plain object inherits from
  \<open>Object.prototype\<close>: for a session key that names one of its members the value read is a
  function (or, for \<open>__proto__\<close>, the prototype itself), which is truthy although \<open>stats\<close>
  has no entry of its own under that key.
\<close>

definition protoMembers :: "string list" where
  "protoMembers =
     [''constructor'', ''__defineGetter__'', ''__defineSetter__'', ''hasOwnProperty'',
      ''__lookupGetter__'', ''__lookupSetter__'', ''isPrototypeOf'', ''propertyIsEnumerable'',
      ''toString'', ''valueOf'', ''__proto__'', ''toLocaleString'']"

definition inherited :: "string \<Rightarrow> bool" where
  "inherited k = (k \<in> set protoMembers)"

datatype 'a slot = Own 'a | Inherited | Absent

definition statsSlot :: "(string \<times> 'a) list \<Rightarrow> string \<Rightarrow> 'a slot" where
  "statsSlot stats sessKey =
     (case map_of stats sessKey of
        Some s \<Rightarrow> Own s
      | None \<Rightarrow> if inherited sessKey then Inherited else Absent)"

text \<open>
  The state of the loop: the own entries of \<open>stats\<close>, and the properties of inherited
  objects that the loop has written to, as pairs of the member of \<open>Object.prototype\<close> and
  the property. Such a property did not exist before, so \<open>++\<close> leaves \<open>NaN\<close> in it; the
  objects are shared by the whole page.
\<close>

record 'a stats_state =
  sessStats :: "(string \<times> 'a) list"
  nanWrites :: "(string \<times> string) list"

text \<open>The loop body when \<open>stats[sessKey]\<close> is an inherited object.\<close>

definition countRowInherited ::
  "(real \<Rightarrow> string) \<Rightarrow> string \<Rightarrow> row \<Rightarrow> (string \<times> string) list \<Rightarrow> (string \<times> string) list" where
  "countRowInherited numText sessKey row w =
     (let bias = biasOf numText row;
          w1 = List.insert (sessKey, ''total'') w;
          w2 = (if bias = [] then List.insert (sessKey, ''neutral'') w1
                else if includes_str bias ''bull'' then List.insert (sessKey, ''bull'') w1
                else if includes_str bias ''bear'' then List.insert (sessKey, ''bear'') w1
                else List.insert (sessKey, ''neutral'') w1)
      in if includes_str bias ''strong'' then List.insert (sessKey, ''strong'') w2 else w2)"

fun countRowsInherited ::
  "(real \<Rightarrow> string) \<Rightarrow> string \<Rightarrow> row list \<Rightarrow> (string \<times> string) list \<Rightarrow> (string \<times> string) list" where
  "countRowsInherited numText sessKey [] w = w"
| "countRowsInherited numText sessKey (row # rows) w =
     countRowsInherited numText sessKey rows (countRowInherited numText sessKey row w)"

text \<open>
  A session for which \<open>stats[sessKey]\<close> is falsy gets zero counts before its rows are
  read. The result is the state reached and the error that stopped the loop, if any.
\<close>

fun nakStats ::
  "(real \<Rightarrow> string) \<Rightarrow> sessions \<Rightarrow> dir_stats stats_state \<Rightarrow> dir_stats stats_state \<times> err option" where
  "nakStats numText [] st = (st, None)"
| "nakStats numText ((sessKey, rows) # rest) st =
     (let st1 = (case statsSlot (sessStats st) sessKey of
                   Absent \<Rightarrow> st\<lparr>sessStats := AList.update sessKey zeroDirStats (sessStats st)\<rparr>
                 | _ \<Rightarrow> st)
      in case rows of
           NotIterable \<Rightarrow> (st1, Some TypeError)
         | Rows rs \<Rightarrow>
             (case statsSlot (sessStats st1) sessKey of
                Own s \<Rightarrow>
                  nakStats numText rest
                    (st1\<lparr>sessStats := AList.update sessKey (countRows numText rs s) (sessStats st1)\<rparr>)
              | Inherited \<Rightarrow>
                  nakStats numText rest
                    (st1\<lparr>nanWrites := countRowsInherited numText sessKey rs (nanWrites st1)\<rparr>)
              | Absent \<Rightarrow> (st1, Some TypeError)))"

text \<open>
  The pills of the summary row: one per own entry of \<open>stats\<close>, or the placeholder when
  there is none.
\<close>

datatype 'a pill = NoRowsPill | StatsPill string string 'a

definition buildSummary_nak ::
  "(real \<Rightarrow> string) \<Rightarrow> sessions \<Rightarrow> string \<Rightarrow> err + dir_stats pill list" where
  "buildSummary_nak numText sess timeframe =
     (case nakStats numText sess \<lparr>sessStats = [], nanWrites = []\<rparr> of
        (st, Some e) \<Rightarrow> Inl e
      | (st, None) \<Rightarrow>
          if sessStats st = [] then Inr [NoRowsPill]
          else Inr (map (\<lambda>(s, c). StatsPill (toUpperCase s) timeframe c) (sessStats st)))"

section \<open>The nakshatra view: one load\<close>

text \<open>
  What \<open>fetch\<close> gives: a rejection (no response at all) or a response with its status
  code, its body text (\<open>res.text()\<close>) and the payload \<open>res.json()\<close> parses from it
  (\<open>None\<close> when the body is not JSON). \<open>res.ok\<close> holds for the status codes 200 to 299.
  The payload is \<open>null\<close> or an object; its \<open>sessions\<close> field is \<open>None\<close> when it is
  missing, \<open>null\<close> or another falsy value, and the mapping from session keys to their
  values otherwise.
\<close>

datatype payload = PNull | PObject "sessions option"

record response =
  res_status :: nat
  res_text :: string
  res_json :: "payload option"

definition res_ok :: "response \<Rightarrow> bool" where
  "res_ok res = (200 \<le> res_status res \<and> res_status res \<le> 299)"

datatype fetched = Rejected | Response response

datatype ui_status = Loading | StatusOk | StatusErr err

record nak_ui =
  nak_status :: ui_status
  nakBody :: "nak_tr list"
  summaryRow :: "dir_stats pill list"

text \<open>
  \<open>loadNakshatra\<close>: the page after one load, from the date and time frame chosen and
  what the single \<open>fetch\<close> gave. The page is reset first; the \<open>catch\<close> block only writes
  the status.
\<close>

definition loadNakshatra :: "(real \<Rightarrow> string) \<Rightarrow> string \<Rightarrow> string \<Rightarrow> fetched \<Rightarrow> nak_ui" where
  "loadNakshatra numText date tf fetchResult =
     (let ui0 = \<lparr>nak_status = Loading, nakBody = [], summaryRow = []\<rparr>
      in if date = [] then ui0\<lparr>nak_status := StatusErr (Error ''Please select a valid date.'')\<rparr>
         else case fetchResult of
           Rejected \<Rightarrow> ui0\<lparr>nak_status := StatusErr NetworkFailure\<rparr>
         | Response res \<Rightarrow>
             if \<not> res_ok res
             then ui0\<lparr>nak_status := StatusErr
                    (Error (''HTTP '' @ showNat (res_status res) @ '': '' @ take 200 (res_text res)))\<rparr>
             else case res_json res of
               None \<Rightarrow> ui0\<lparr>nak_status := StatusErr SyntaxError\<rparr>
             | Some PNull \<Rightarrow>
                 ui0\<lparr>nak_status := StatusErr (Error ''No session data returned from API.'')\<rparr>
             | Some (PObject None) \<Rightarrow>
                 ui0\<lparr>nak_status := StatusErr (Error ''No session data returned from API.'')\<rparr>
             | Some (PObject (Some sess)) \<Rightarrow>
                 (case buildNakshatraRows numText sess [] of
                    (tbody, Some e) \<Rightarrow> ui0\<lparr>nak_status := StatusErr e, nakBody := tbody\<rparr>
                  | (tbody, None) \<Rightarrow>
                      (case buildSummary_nak numText sess tf of
                         Inl e \<Rightarrow> ui0\<lparr>nak_status := StatusErr e, nakBody := tbody\<rparr>
                       | Inr pills \<Rightarrow>
                           ui0\<lparr>nak_status := StatusOk, nakBody := tbody, summaryRow := pills\<rparr>)))"

section \<open>The report view (app.js)\<close>

text \<open>
  \<open>(row.trade_recommendation || "").toUpperCase()\<close> and
  \<open>(row.astro_bias || row.astrological_bias || "").toLowerCase()\<close>: a truthy value that
  is not a string has no such method, and the call raises a TypeError.
\<close>

definition recTextOf :: "row \<Rightarrow> err + string" where
  "recTextOf row =
     (case orEmpty (getProp row ''trade_recommendation'') of
        Str s \<Rightarrow> Inr (toUpperCase s)
      | _ \<Rightarrow> Inl TypeError)"

definition biasTextOf :: "row \<Rightarrow> err + string" where
  "biasTextOf row =
     (case (if truthy (getProp row ''astro_bias'') then getProp row ''astro_bias''
            else orEmpty (getProp row ''astrological_bias'')) of
        Str s \<Rightarrow> Inr (toLowerCase s)
      | _ \<Rightarrow> Inl TypeError)"

definition rowBiasClass :: "string \<Rightarrow> string" where
  "rowBiasClass biasText =
     (if includes_str biasText ''strong'' \<and> includes_str biasText ''bull'' then ''bias-strong-bull''
      else if includes_str biasText ''bull'' then ''bias-bull''
      else if includes_str biasText ''strong'' \<and> includes_str biasText ''bear'' then ''bias-strong-bear''
      else if includes_str biasText ''bear'' then ''bias-bear''
      else [])"

definition recClass :: "string \<Rightarrow> string" where
  "recClass recText =
     (if includes_str recText ''STRONG BUY'' then ''rec-strong-buy''
      else if includes_str recText ''BUY'' then ''rec-buy''
      else if includes_str recText ''STRONG SELL'' then ''rec-strong-sell''
      else if includes_str recText ''SELL'' then ''rec-sell''
      else [])"

definition posClass :: "row \<Rightarrow> string" where
  "posClass row =
     (let pos = (case getProp row ''position_size_percentage'' of
                   Undefined \<Rightarrow> Str [] | Null \<Rightarrow> Str [] | v \<Rightarrow> v)
      in if pos = Str ''100%'' \<or> pos = Num 100 then ''pos-100'' else [])"

text \<open>
  A rendered row of the report table: the session cell and the classes. The text cells
  and the formatted score are not part of the model.
\<close>

record app_tr =
  sessCellA :: string
  trClass :: string
  recCls :: string
  posCls :: string

definition renderAppRow :: "string \<Rightarrow> row \<Rightarrow> err + app_tr" where
  "renderAppRow sessKey row =
     (case biasTextOf row of
        Inl e \<Rightarrow> Inl e
      | Inr biasText \<Rightarrow>
          (case recTextOf row of
             Inl e \<Rightarrow> Inl e
           | Inr recText \<Rightarrow>
               Inr \<lparr>sessCellA = toUpperCase sessKey, trClass = rowBiasClass biasText,
                    recCls = recClass recText, posCls = posClass row\<rparr>))"

fun renderAppRows :: "string \<Rightarrow> row list \<Rightarrow> err + app_tr list" where
  "renderAppRows sessKey [] = Inr []"
| "renderAppRows sessKey (row # rows) =
     (case renderAppRow sessKey row of
        Inl e \<Rightarrow> Inl e
      | Inr tr \<Rightarrow>
          (case renderAppRows sessKey rows of
             Inl e \<Rightarrow> Inl e
           | Inr trs \<Rightarrow> Inr (tr # trs)))"

text \<open>\<open>data.sessions || {}\<close>: reading a field of \<open>null\<close> raises a TypeError.\<close>

fun sessionsOf :: "payload \<Rightarrow> err + sessions" where
  "sessionsOf PNull = Inl TypeError"
| "sessionsOf (PObject None) = Inr []"
| "sessionsOf (PObject (Some sess)) = Inr sess"

fun tableRows :: "sessions \<Rightarrow> err + app_tr list" where
  "tableRows [] = Inr []"
| "tableRows ((sessKey, NotIterable) # rest) = Inl TypeError"
| "tableRows ((sessKey, Rows rows) # rest) =
     (case renderAppRows sessKey rows of
        Inl e \<Rightarrow> Inl e
      | Inr trs \<Rightarrow>
          (case tableRows rest of
             Inl e \<Rightarrow> Inl e
           | Inr trs2 \<Rightarrow> Inr (trs @ trs2)))"

text \<open>\<open>buildTable\<close> builds a detached table and returns it; nothing is shown until it returns.\<close>

definition buildTable :: "payload \<Rightarrow> err + app_tr list" where
  "buildTable data = (case sessionsOf data of Inl e \<Rightarrow> Inl e | Inr sess \<Rightarrow> tableRows sess)"

record rec_stats =
  buy :: nat
  strongBuy :: nat
  sell :: nat
  strongSell :: nat
  total_rec :: nat

definition zeroRecStats :: rec_stats where
  "zeroRecStats = \<lparr>buy = 0, strongBuy = 0, sell = 0, strongSell = 0, total_rec = 0\<rparr>"

text \<open>The body of the inner loop of \<open>buildSummary\<close> in app.js.\<close>

definition countRec :: "row \<Rightarrow> rec_stats \<Rightarrow> err + rec_stats" where
  "countRec row st =
     (case recTextOf row of
        Inl e \<Rightarrow> Inl e
      | Inr rec \<Rightarrow>
          (let st1 = st\<lparr>total_rec := total_rec st + 1\<rparr>
           in Inr (if includes_str rec ''STRONG BUY'' then st1\<lparr>strongBuy := strongBuy st1 + 1\<rparr>
                   else if includes_str rec ''BUY'' then st1\<lparr>buy := buy st1 + 1\<rparr>
                   else if includes_str rec ''STRONG SELL'' then st1\<lparr>strongSell := strongSell st1 + 1\<rparr>
                   else if includes_str rec ''SELL'' then st1\<lparr>sell := sell st1 + 1\<rparr>
                   else st1)))"

fun countRecs :: "row list \<Rightarrow> rec_stats \<Rightarrow> err + rec_stats" where
  "countRecs [] st = Inr st"
| "countRecs (row # rows) st =
     (case countRec row st of Inl e \<Rightarrow> Inl e | Inr st' \<Rightarrow> countRecs rows st')"

text \<open>The loop body of app.js when \<open>stats[sessKey]\<close> is an inherited object.\<close>

definition countRecInherited ::
  "string \<Rightarrow> string \<Rightarrow> (string \<times> string) list \<Rightarrow> (string \<times> string) list" where
  "countRecInherited sessKey rec w =
     (let w1 = List.insert (sessKey, ''total'') w
      in if includes_str rec ''STRONG BUY'' then List.insert (sessKey, ''strongBuy'') w1
         else if includes_str rec ''BUY'' then List.insert (sessKey, ''buy'') w1
         else if includes_str rec ''STRONG SELL'' then List.insert (sessKey, ''strongSell'') w1
         else if includes_str rec ''SELL'' then List.insert (sessKey, ''sell'') w1
         else w1)"

fun countRecsInherited ::
  "string \<Rightarrow> row list \<Rightarrow> (string \<times> string) list \<Rightarrow> (string \<times> string) list \<times> err option" where
  "countRecsInherited sessKey [] w = (w, None)"
| "countRecsInherited sessKey (row # rows) w =
     (case recTextOf row of
        Inl e \<Rightarrow> (w, Some e)
      | Inr rec \<Rightarrow> countRecsInherited sessKey rows (countRecInherited sessKey rec w))"

fun appStats ::
  "sessions \<Rightarrow> rec_stats stats_state \<Rightarrow> rec_stats stats_state \<times> err option" where
  "appStats [] st = (st, None)"
| "appStats ((sessKey, rows) # rest) st =
     (let st1 = (case statsSlot (sessStats st) sessKey of
                   Absent \<Rightarrow> st\<lparr>sessStats := AList.update sessKey zeroRecStats (sessStats st)\<rparr>
                 | _ \<Rightarrow> st)
      in case rows of
           NotIterable \<Rightarrow> (st1, Some TypeError)
         | Rows rs \<Rightarrow>
             (case statsSlot (sessStats st1) sessKey of
                Own s \<Rightarrow>
                  (case countRecs rs s of
                     Inl e \<Rightarrow> (st1, Some e)
                   | Inr s' \<Rightarrow>
                       appStats rest (st1\<lparr>sessStats := AList.update sessKey s' (sessStats st1)\<rparr>))
              | Inherited \<Rightarrow>
                  (case countRecsInherited sessKey rs (nanWrites st1) of
                     (w, Some e) \<Rightarrow> (st1\<lparr>nanWrites := w\<rparr>, Some e)
                   | (w, None) \<Rightarrow> appStats rest (st1\<lparr>nanWrites := w\<rparr>))
              | Absent \<Rightarrow> (st1, Some TypeError)))"

definition buildSummary_app :: "payload \<Rightarrow> string \<Rightarrow> err + rec_stats pill list" where
  "buildSummary_app data timeframe =
     (case sessionsOf data of
        Inl e \<Rightarrow> Inl e
      | Inr sess \<Rightarrow>
          (case appStats sess \<lparr>sessStats = [], nanWrites = []\<rparr> of
             (st, Some e) \<Rightarrow> Inl e
           | (st, None) \<Rightarrow>
               Inr (map (\<lambda>(s, c). StatsPill (toUpperCase s) timeframe c) (sessStats st)
                    @ (if sessStats st = [] then [NoRowsPill] else []))))"

record app_ui =
  app_status :: ui_status
  tableContainer :: "app_tr list option"
  summaryRowA :: "rec_stats pill list"

text \<open>\<open>loadReport\<close>: the page after one load, from what the single \<open>fetch\<close> gave.\<close>

definition loadReport :: "string \<Rightarrow> fetched \<Rightarrow> app_ui" where
  "loadReport timeframe fetchResult =
     (let ui0 = \<lparr>app_status = Loading, tableContainer = None, summaryRowA = []\<rparr>
      in case fetchResult of
           Rejected \<Rightarrow> ui0\<lparr>app_status := StatusErr NetworkFailure\<rparr>
         | Response res \<Rightarrow>
             if \<not> res_ok res
             then ui0\<lparr>app_status := StatusErr (Error (''HTTP '' @ showNat (res_status res)))\<rparr>
             else case res_json res of
               None \<Rightarrow> ui0\<lparr>app_status := StatusErr SyntaxError\<rparr>
             | Some data \<Rightarrow>
                 (case buildTable data of
                    Inl e \<Rightarrow> ui0\<lparr>app_status := StatusErr e\<rparr>
                  | Inr table \<Rightarrow>
                      (case buildSummary_app data timeframe of
                         Inl e \<Rightarrow> ui0\<lparr>app_status := StatusErr e, tableContainer := Some table\<rparr>
                       | Inr pills \<Rightarrow>
                           ui0\<lparr>app_status := StatusOk, tableContainer := Some table,
                               summaryRowA := pills\<rparr>)))"

section \<open>The classification rules as the specification words them\<close>

text \<open>
  These three definitions follow the text of the specification (section 4.2), not the
  code; the claims below compare the code with them.
\<close>

datatype direction = Bull | Bear | Neutral

datatype quality = Soft | Sharp | NoQuality

datatype recommendation = Buy | StrongBuy | Sell | StrongSell | NoRecommendation

definition spec_direction :: "string \<Rightarrow> direction" where
  "spec_direction direction_raw =
     (let l = toLowerCase direction_raw
      in if includes_str l ''bull'' then Bull
         else if includes_str l ''bear'' then Bear
         else Neutral)"

definition spec_quality :: "string \<Rightarrow> quality" where
  "spec_quality quality_raw =
     (let l = toLowerCase quality_raw
      in if includes_str l ''soft'' \<or> includes_str l ''mridu'' then Soft
         else if includes_str l ''sharp'' \<or> includes_str l ''tikshna'' then Sharp
         else NoQuality)"

definition spec_recommendation :: "string \<Rightarrow> recommendation" where
  "spec_recommendation recommendation_raw =
     (let u = toUpperCase recommendation_raw
      in if includes_str u ''STRONG BUY'' then StrongBuy
         else if includes_str u ''BUY'' then Buy
         else if includes_str u ''STRONG SELL'' then StrongSell
         else if includes_str u ''SELL'' then Sell
         else NoRecommendation)"

definition spec_strong :: "string \<Rightarrow> bool" where
  "spec_strong direction_raw = includes_str (toLowerCase direction_raw) ''strong''"

text \<open>The counts a record with the given tags adds to a session's summary (section 4.3).\<close>

definition spec_count :: "direction \<Rightarrow> bool \<Rightarrow> dir_stats \<Rightarrow> dir_stats" where
  "spec_count d s st =
     st\<lparr>total_dir := total_dir st + 1,
        bull := bull st + (if d = Bull then 1 else 0),
        bear := bear st + (if d = Bear then 1 else 0),
        neutral := neutral st + (if d = Neutral then 1 else 0),
        strong := strong st + (if s then 1 else 0)\<rparr>"

text \<open>Adding the counts of one summary to another, field by field.\<close>

definition addDirStats :: "dir_stats \<Rightarrow> dir_stats \<Rightarrow> dir_stats" where
  "addDirStats a b =
     \<lparr>bull = bull a + bull b, bear = bear a + bear b, neutral = neutral a + neutral b,
      strong = strong a + strong b, total_dir = total_dir a + total_dir b\<rparr>"

text \<open>The invariants of a session summary (section 3 of the specification).\<close>

definition dirInvariant :: "dir_stats \<Rightarrow> bool" where
  "dirInvariant s = (bull s + bear s + neutral s = total_dir s \<and> strong s \<le> total_dir s)"

definition recInvariant :: "rec_stats \<Rightarrow> bool" where
  "recInvariant s = (buy s + strongBuy s + sell s + strongSell s \<le> total_rec s)"

section \<open>Facts about strings\<close>

lemma startsWith_iff: "startsWith s p \<longleftrightarrow> (\<exists>b. s = p @ b)"
  by (induction s p rule: startsWith.induct) auto

lemma includes_str_iff: "includes_str s p \<longleftrightarrow> (\<exists>a b. s = a @ p @ b)"
proof (induction s)
  case Nil
  then show ?case by auto
next
  case (Cons c cs)
  show ?case
  proof
    assume "includes_str (c # cs) p"
    then consider "startsWith (c # cs) p" | "includes_str cs p" by auto
    then show "\<exists>a b. c # cs = a @ p @ b"
    proof cases
      case 1
      then obtain b where "c # cs = p @ b" by (auto simp: startsWith_iff)
      then have "c # cs = [] @ p @ b" by simp
      then show ?thesis by blast
    next
      case 2
      then obtain a b where "cs = a @ p @ b" using Cons.IH by auto
      then have "c # cs = (c # a) @ p @ b" by simp
      then show ?thesis by blast
    qed
  next
    assume "\<exists>a b. c # cs = a @ p @ b"
    then obtain a b where ab: "c # cs = a @ p @ b" by blast
    show "includes_str (c # cs) p"
    proof (cases a)
      case Nil
      with ab have "startsWith (c # cs) p" by (auto simp: startsWith_iff)
      then show ?thesis by simp
    next
      case (Cons x a')
      with ab have "cs = a' @ p @ b" by simp
      then have "includes_str cs p" using Cons.IH by blast
      then show ?thesis by simp
    qed
  qed
qed

lemma includes_str_self: "includes_str s s"
proof -
  have "s = [] @ s @ []" by simp
  then show ?thesis unfolding includes_str_iff by blast
qed

lemma includes_str_trans:
  assumes "includes_str s p" and "includes_str p q"
  shows "includes_str s q"
proof -
  from assms obtain a b c d where "s = a @ p @ b" and "p = c @ q @ d"
    unfolding includes_str_iff by blast
  then have "s = (a @ c) @ q @ (d @ b)" by simp
  then show ?thesis unfolding includes_str_iff by blast
qed

section \<open>Facts about pickField\<close>

lemma exactPhase_find:
  "exactPhase row keys = map_option (getProp row) (find (\<lambda>k. \<not> isBlank (getProp row k)) keys)"
  by (induction keys) (auto simp: isBlank_def)

lemma fuzzyPhase_find:
  "fuzzyPhase lowerParts row =
     map_option snd
       (find (\<lambda>(k, v). \<not> isBlank v \<and> (\<exists>p\<in>set lowerParts. includes_str (toLowerCase k) p)) row)"
proof (induction row)
  case Nil
  then show ?case by simp
next
  case (Cons e es)
  obtain k v where e: "e = (k, v)" by (cases e)
  show ?case
  proof (cases "isBlank v")
    case True
    with Cons e show ?thesis by (auto simp: isBlank_def)
  next
    case False
    with Cons e show ?thesis by (simp add: isBlank_def list_ex_iff)
  qed
qed

lemma fuzzyPhase_set_cong:
  "set lowerParts = set lowerParts' \<Longrightarrow> fuzzyPhase lowerParts row = fuzzyPhase lowerParts' row"
  by (simp add: fuzzyPhase_find)

lemma exactPhase_None_iff:
  "exactPhase row keys = None \<longleftrightarrow> (\<forall>key\<in>set keys. isBlank (getProp row key))"
  by (induction keys) (auto simp: isBlank_def)

lemma exactPhase_Some_entry:
  "exactPhase row keys = Some v \<Longrightarrow> \<exists>key\<in>set keys. (key, v) \<in> set row \<and> \<not> isBlank v"
proof (induction keys)
  case Nil
  then show ?case by simp
next
  case (Cons key keys)
  show ?case
  proof (cases "isBlank (getProp row key)")
    case True
    with Cons show ?thesis by (auto simp: isBlank_def)
  next
    case False
    with Cons.prems have v: "v = getProp row key" by (auto simp: isBlank_def)
    with False obtain w where "map_of row key = Some w" and "w = v"
      by (auto simp: getProp_def isBlank_def split: option.splits)
    then have "(key, v) \<in> set row" by (auto dest: map_of_SomeD)
    with False v show ?thesis by auto
  qed
qed

lemma getProp_absent: "key \<notin> fst ` set row \<Longrightarrow> getProp row key = Undefined"
proof -
  assume "key \<notin> fst ` set row"
  then have "map_of row key = None" by (simp add: map_of_eq_None_iff)
  then show ?thesis by (simp add: getProp_def)
qed

lemma fuzzyPhase_Some_entry:
  "fuzzyPhase lowerParts row = Some v \<Longrightarrow>
     \<exists>k. (k, v) \<in> set row \<and> \<not> isBlank v \<and> (\<exists>p\<in>set lowerParts. includes_str (toLowerCase k) p)"
proof -
  assume "fuzzyPhase lowerParts row = Some v"
  then obtain e where
    f: "find (\<lambda>(k, v). \<not> isBlank v \<and> (\<exists>p\<in>set lowerParts. includes_str (toLowerCase k) p)) row = Some e"
    and v: "snd e = v"
    by (auto simp: fuzzyPhase_find)
  obtain k where e: "e = (k, v)" using v by (cases e) simp
  from f have "e \<in> set row" by (auto simp: find_Some_iff intro: nth_mem)
  moreover from f have "case e of (k, v) \<Rightarrow> \<not> isBlank v \<and> (\<exists>p\<in>set lowerParts. includes_str (toLowerCase k) p)"
    by (auto simp: find_Some_iff)
  ultimately show ?thesis using e by auto
qed

lemma fuzzyPhase_None_iff:
  "fuzzyPhase lowerParts row = None \<longleftrightarrow>
     (\<forall>(k, v)\<in>set row. isBlank v \<or> \<not> (\<exists>p\<in>set lowerParts. includes_str (toLowerCase k) p))"
  by (auto simp: fuzzyPhase_find find_None_iff)

section \<open>Claims about pickField\<close>

text \<open>
  Claim C1. If some exact key is stored in the row with a value that is neither absent nor
  the empty string, \<open>pickField\<close> returns the value stored under the first such exact key,
  whatever the fuzzy parts and the other entries are (so also when an entry for another
  field would match a fuzzy part); the number zero is not a blank value, so a stored zero
  is returned and not replaced by the fallback.
\<close>

theorem pickField_exact_priority:
  "(\<exists>key\<in>set exactKeys. \<exists>v. map_of row key = Some v \<and> \<not> isBlank v) \<Longrightarrow>
     (\<exists>key. find (\<lambda>k. \<not> isBlank (getProp row k)) exactKeys = Some key
        \<and> map_of row key = Some (getProp row key)
        \<and> pickField row exactKeys fuzzyParts fallback = getProp row key)
     \<and> \<not> isBlank (Num 0)"
proof -
  assume "\<exists>key\<in>set exactKeys. \<exists>v. map_of row key = Some v \<and> \<not> isBlank v"
  then obtain key0 v where k0: "key0 \<in> set exactKeys" and "map_of row key0 = Some v" and "\<not> isBlank v"
    by blast
  then have "\<not> isBlank (getProp row key0)" by (simp add: getProp_def)
  with k0 have "find (\<lambda>k. \<not> isBlank (getProp row k)) exactKeys \<noteq> None"
    by (auto simp: find_None_iff)
  then obtain key where f: "find (\<lambda>k. \<not> isBlank (getProp row k)) exactKeys = Some key"
    by blast
  then have nb: "\<not> isBlank (getProp row key)" by (auto simp: find_Some_iff)
  then have m: "map_of row key = Some (getProp row key)"
    by (auto simp: getProp_def isBlank_def split: option.splits)
  from f have "exactPhase row exactKeys = Some (getProp row key)"
    by (simp add: exactPhase_find)
  then have "pickField row exactKeys fuzzyParts fallback = getProp row key"
    by (simp add: pickField_def)
  with f m show ?thesis by (simp add: isBlank_def)
qed

theorem pickField_exact_priority_witness:
  "pickField [(''bias'', Str ''bullish''), (''nakshatra_score'', Num 0)]
     [''nakshatra_bullish_score'', ''nakshatra_score''] [''bias''] (Str ''none'') = Num 0
   \<and> pickField [(''bias'', Str ''bullish''), (''nakshatra_score'', Num 0)]
     [] [''bias''] (Str ''none'') = Str ''bullish''"
proof -
  let ?row = "[(''bias'', Str ''bullish''), (''nakshatra_score'', Num 0)]"
  let ?keys = "[''nakshatra_bullish_score'', ''nakshatra_score'']"
  have h: "\<exists>key\<in>set ?keys. \<exists>v. map_of ?row key = Some v \<and> \<not> isBlank v"
    by (simp add: isBlank_def)
  have g: "getProp ?row ''nakshatra_bullish_score'' = Undefined" "getProp ?row ''nakshatra_score'' = Num 0"
    by (simp_all add: getProp_def)
  from pickField_exact_priority [OF h, of "[''bias'']" "Str ''none''"]
  have "pickField ?row ?keys [''bias''] (Str ''none'') = Num 0"
    by (auto simp: g isBlank_def)
  moreover have "pickField ?row [] [''bias''] (Str ''none'') = Str ''bullish''"
    by code_simp
  ultimately show ?thesis by simp
qed

text \<open>
  Claim C2. When no exact key has a non-blank value, \<open>pickField\<close> returns the value of the
  first entry of the row, in entry order, whose value is not blank and whose lower-cased
  key contains one of the lower-cased fuzzy parts, and the fallback when there is no such
  entry; the result depends on the set of fuzzy parts only, not on their order.
\<close>

theorem pickField_fuzzy_entry_order:
  "\<forall>key\<in>set exactKeys. isBlank (getProp row key) \<Longrightarrow>
     pickField row exactKeys fuzzyParts fallback =
       (case find (\<lambda>(k, v). \<not> isBlank v \<and>
                 (\<exists>p\<in>set fuzzyParts. includes_str (toLowerCase k) (toLowerCase p))) row of
          Some (k, v) \<Rightarrow> v
        | None \<Rightarrow> fallback)
     \<and> (\<forall>fuzzyParts'. set fuzzyParts' = set fuzzyParts \<longrightarrow>
           pickField row exactKeys fuzzyParts' fallback = pickField row exactKeys fuzzyParts fallback)"
proof -
  assume "\<forall>key\<in>set exactKeys. isBlank (getProp row key)"
  then have e: "exactPhase row exactKeys = None" by (simp add: exactPhase_None_iff)
  have "fuzzyPhase (map toLowerCase fuzzyParts) row =
      map_option snd (find (\<lambda>(k, v). \<not> isBlank v \<and>
                 (\<exists>p\<in>set fuzzyParts. includes_str (toLowerCase k) (toLowerCase p))) row)"
    by (simp add: fuzzyPhase_find)
  with e have 1: "pickField row exactKeys fuzzyParts fallback =
       (case find (\<lambda>(k, v). \<not> isBlank v \<and>
                 (\<exists>p\<in>set fuzzyParts. includes_str (toLowerCase k) (toLowerCase p))) row of
          Some (k, v) \<Rightarrow> v
        | None \<Rightarrow> fallback)"
    by (simp add: pickField_def split: option.splits)
  have 2: "pickField row exactKeys fuzzyParts' fallback = pickField row exactKeys fuzzyParts fallback"
    if "set fuzzyParts' = set fuzzyParts" for fuzzyParts'
  proof -
    from that have "set (map toLowerCase fuzzyParts') = set (map toLowerCase fuzzyParts)" by simp
    then have "fuzzyPhase (map toLowerCase fuzzyParts') row = fuzzyPhase (map toLowerCase fuzzyParts) row"
      by (rule fuzzyPhase_set_cong)
    then show ?thesis unfolding pickField_def by (rule arg_cong)
  qed
  from 1 2 show ?thesis by blast
qed

theorem pickField_fuzzy_entry_order_witness:
  "pickField [(''direction'', Str ''bearish trend''), (''bias'', Str ''bullish'')]
     [''nakshatra_bias''] [''bias'', ''direction''] (Str []) = Str ''bearish trend''
   \<and> pickField [(''direction'', Str ''bearish trend''), (''bias'', Str ''bullish'')]
     [''nakshatra_bias''] [''direction'', ''bias''] (Str []) = Str ''bearish trend''
   \<and> pickField [(''time'', Str ''09:00'')] [''nakshatra_bias''] [''bias'', ''direction''] (Num 7) = Num 7"
proof -
  let ?row = "[(''direction'', Str ''bearish trend''), (''bias'', Str ''bullish'')]"
  have h: "\<forall>key\<in>set [''nakshatra_bias'']. isBlank (getProp ?row key)"
    by (simp add: getProp_def isBlank_def)
  have s: "set [''direction'', ''bias''] = set [''bias'', ''direction'']" by auto
  from pickField_fuzzy_entry_order [OF h, of "[''bias'', ''direction'']" "Str []"]
  have a: "pickField ?row [''nakshatra_bias''] [''direction'', ''bias''] (Str [])
         = pickField ?row [''nakshatra_bias''] [''bias'', ''direction''] (Str [])"
    using s by blast
  have b: "pickField ?row [''nakshatra_bias''] [''bias'', ''direction''] (Str []) = Str ''bearish trend''"
    by code_simp
  have c: "pickField [(''time'', Str ''09:00'')] [''nakshatra_bias''] [''bias'', ''direction''] (Num 7) = Num 7"
    by code_simp
  from a b c show ?thesis by simp
qed

text \<open>
  Claim C10. The exact phase compares keys as they are written: when no key of the row
  is equal to an exact key, the exact phase returns nothing, also when a key of the row
  differs from an exact key in letter case only; the fuzzy phase, which lower-cases both
  sides, still finds such an entry.
\<close>

theorem exactPhase_case_sensitive:
  assumes "\<forall>key\<in>set exactKeys. key \<notin> fst ` set row"
    and "key \<in> set exactKeys"
    and "(k, v) \<in> set row" and "\<not> isBlank v"
    and "toLowerCase k = toLowerCase key"
  shows "k \<noteq> key \<and> exactPhase row exactKeys = None
     \<and> (\<exists>k' v'. (k', v') \<in> set row \<and> \<not> isBlank v'
            \<and> includes_str (toLowerCase k') (toLowerCase key)
            \<and> fuzzyPhase (map toLowerCase [key]) row = Some v'
            \<and> pickField row exactKeys [key] fallback = v')
     \<and> (row = [(k, v)] \<longrightarrow> pickField row exactKeys [key] fallback = v)"
proof -
  from assms(1,2,3) have ne: "k \<noteq> key" by force
  from assms(1) have "\<forall>key\<in>set exactKeys. isBlank (getProp row key)"
    by (simp add: getProp_absent isBlank_def)
  then have e: "exactPhase row exactKeys = None" by (simp add: exactPhase_None_iff)
  have "includes_str (toLowerCase k) (toLowerCase key)"
    using assms(5) by (simp add: includes_str_self)
  with assms(3,4) have "fuzzyPhase [toLowerCase key] row \<noteq> None"
    unfolding fuzzyPhase_None_iff by fastforce
  then obtain v' where f: "fuzzyPhase [toLowerCase key] row = Some v'" by blast
  from fuzzyPhase_Some_entry [OF f] obtain k' where
    k': "(k', v') \<in> set row" "\<not> isBlank v'" "includes_str (toLowerCase k') (toLowerCase key)"
    by auto
  from e f have p: "pickField row exactKeys [key] fallback = v'" by (simp add: pickField_def)
  have "v' = v" if "row = [(k, v)]" using that k'(1) by simp
  with ne e f k' p show ?thesis by auto
qed

theorem exactPhase_case_sensitive_witness:
  "exactPhase [(''Nakshatra_Bias'', Str ''Bullish'')] [''nakshatra_bias''] = None
   \<and> pickField [(''Nakshatra_Bias'', Str ''Bullish'')] [''nakshatra_bias''] [''nakshatra_bias''] (Str '''')
       = Str ''Bullish''"
proof -
  let ?row = "[(''Nakshatra_Bias'', Str ''Bullish'')]"
  have 1: "\<forall>key\<in>set [''nakshatra_bias'']. key \<notin> fst ` set ?row" by simp
  have 2: "''nakshatra_bias'' \<in> set [''nakshatra_bias'']" by simp
  have 3: "(''Nakshatra_Bias'', Str ''Bullish'') \<in> set ?row" by simp
  have 4: "\<not> isBlank (Str ''Bullish'')" by (simp add: isBlank_def)
  have 5: "toLowerCase ''Nakshatra_Bias'' = toLowerCase ''nakshatra_bias''" by code_simp
  from exactPhase_case_sensitive [OF 1 2 3 4 5, of "Str ''''"] show ?thesis by simp
qed

section \<open>Claims about the classification rules\<close>

lemma orEmpty_Str: "orEmpty (Str s) = Str s"
  by (simp add: orEmpty_def truthy_def)

lemma strong_buy_includes_buy: "includes_str u ''STRONG BUY'' \<Longrightarrow> includes_str u ''BUY''"
proof -
  have "includes_str ''STRONG BUY'' ''BUY''" by simp
  then show "includes_str u ''STRONG BUY'' \<Longrightarrow> includes_str u ''BUY''"
    by (rule includes_str_trans [rotated])
qed

lemma strong_sell_includes_sell: "includes_str u ''STRONG SELL'' \<Longrightarrow> includes_str u ''SELL''"
proof -
  have "includes_str ''STRONG SELL'' ''SELL''" by simp
  then show "includes_str u ''STRONG SELL'' \<Longrightarrow> includes_str u ''SELL''"
    by (rule includes_str_trans [rotated])
qed

lemma recTextOf_Str:
  "getProp row ''trade_recommendation'' = Str s \<Longrightarrow> recTextOf row = Inr (toUpperCase s)"
  by (simp add: recTextOf_def orEmpty_Str)

lemma recClass_spec:
  "recClass (toUpperCase s) =
     (case spec_recommendation s of
        StrongBuy \<Rightarrow> ''rec-strong-buy'' | Buy \<Rightarrow> ''rec-buy''
      | StrongSell \<Rightarrow> ''rec-strong-sell'' | Sell \<Rightarrow> ''rec-sell''
      | NoRecommendation \<Rightarrow> [])"
  by (simp add: recClass_def spec_recommendation_def Let_def)

lemma countRec_spec:
  assumes "getProp row ''trade_recommendation'' = Str s"
  shows "countRec row st =
     Inr (case spec_recommendation s of
        StrongBuy \<Rightarrow> st\<lparr>total_rec := total_rec st + 1, strongBuy := strongBuy st + 1\<rparr>
      | Buy \<Rightarrow> st\<lparr>total_rec := total_rec st + 1, buy := buy st + 1\<rparr>
      | StrongSell \<Rightarrow> st\<lparr>total_rec := total_rec st + 1, strongSell := strongSell st + 1\<rparr>
      | Sell \<Rightarrow> st\<lparr>total_rec := total_rec st + 1, sell := sell st + 1\<rparr>
      | NoRecommendation \<Rightarrow> st\<lparr>total_rec := total_rec st + 1\<rparr>)"
  using recTextOf_Str [OF assms]
  by (simp add: countRec_def spec_recommendation_def Let_def)

lemma spec_recommendation_cases:
  "(spec_recommendation s = StrongBuy \<longleftrightarrow> includes_str (toUpperCase s) ''STRONG BUY'')
   \<and> (spec_recommendation s = Buy \<longleftrightarrow>
        includes_str (toUpperCase s) ''BUY'' \<and> \<not> includes_str (toUpperCase s) ''STRONG BUY'')
   \<and> (spec_recommendation s = StrongSell \<longleftrightarrow>
        includes_str (toUpperCase s) ''STRONG SELL'' \<and> \<not> includes_str (toUpperCase s) ''BUY'')
   \<and> (spec_recommendation s = Sell \<longleftrightarrow>
        includes_str (toUpperCase s) ''SELL'' \<and> \<not> includes_str (toUpperCase s) ''STRONG SELL''
        \<and> \<not> includes_str (toUpperCase s) ''BUY'')
   \<and> (spec_recommendation s = NoRecommendation \<longleftrightarrow>
        \<not> includes_str (toUpperCase s) ''BUY'' \<and> \<not> includes_str (toUpperCase s) ''SELL'')"
  using strong_buy_includes_buy [of "toUpperCase s"] strong_sell_includes_sell [of "toUpperCase s"]
  by (auto simp: spec_recommendation_def Let_def split: if_splits)

lemma upper_strong_buy_signal: "toUpperCase ''STRONG BUY SIGNAL'' = ''STRONG BUY SIGNAL''"
  by code_simp

lemma spec_strong_buy_signal: "spec_recommendation ''STRONG BUY SIGNAL'' = StrongBuy"
  by (simp add: spec_recommendation_def upper_strong_buy_signal Let_def)

text \<open>
  Claim C4. The recommendation class of a row (\<open>buildTable\<close>) and the bucket a row is
  counted into (\<open>buildSummary\<close> of app.js) are those of the five-way rule of the
  specification: the upper-cased text is tested for "STRONG BUY", then "BUY", then
  "STRONG SELL", then "SELL", the first test that holds decides, and no test holding gives
  none. The long patterns contain the short ones, so the order matters; "STRONG BUY SIGNAL"
  is a strong buy.
\<close>

theorem recommendation_five_way:
  "recClass (toUpperCase s) =
     (case spec_recommendation s of
        StrongBuy \<Rightarrow> ''rec-strong-buy'' | Buy \<Rightarrow> ''rec-buy''
      | StrongSell \<Rightarrow> ''rec-strong-sell'' | Sell \<Rightarrow> ''rec-sell''
      | NoRecommendation \<Rightarrow> [])
   \<and> (getProp row ''trade_recommendation'' = Str s \<longrightarrow>
        countRec row st =
          Inr (case spec_recommendation s of
             StrongBuy \<Rightarrow> st\<lparr>total_rec := total_rec st + 1, strongBuy := strongBuy st + 1\<rparr>
           | Buy \<Rightarrow> st\<lparr>total_rec := total_rec st + 1, buy := buy st + 1\<rparr>
           | StrongSell \<Rightarrow> st\<lparr>total_rec := total_rec st + 1, strongSell := strongSell st + 1\<rparr>
           | Sell \<Rightarrow> st\<lparr>total_rec := total_rec st + 1, sell := sell st + 1\<rparr>
           | NoRecommendation \<Rightarrow> st\<lparr>total_rec := total_rec st + 1\<rparr>))
   \<and> (spec_recommendation s = StrongBuy \<longleftrightarrow> includes_str (toUpperCase s) ''STRONG BUY'')
   \<and> (spec_recommendation s = Buy \<longleftrightarrow>
        includes_str (toUpperCase s) ''BUY'' \<and> \<not> includes_str (toUpperCase s) ''STRONG BUY'')
   \<and> (spec_recommendation s = StrongSell \<longleftrightarrow>
        includes_str (toUpperCase s) ''STRONG SELL'' \<and> \<not> includes_str (toUpperCase s) ''BUY'')
   \<and> (spec_recommendation s = Sell \<longleftrightarrow>
        includes_str (toUpperCase s) ''SELL'' \<and> \<not> includes_str (toUpperCase s) ''STRONG SELL''
        \<and> \<not> includes_str (toUpperCase s) ''BUY'')
   \<and> (spec_recommendation s = NoRecommendation \<longleftrightarrow>
        \<not> includes_str (toUpperCase s) ''BUY'' \<and> \<not> includes_str (toUpperCase s) ''SELL'')
   \<and> (includes_str (toUpperCase s) ''STRONG BUY'' \<longrightarrow> includes_str (toUpperCase s) ''BUY'')
   \<and> (includes_str (toUpperCase s) ''STRONG SELL'' \<longrightarrow> includes_str (toUpperCase s) ''SELL'')
   \<and> spec_recommendation ''STRONG BUY SIGNAL'' = StrongBuy"
  using recClass_spec [of s] countRec_spec [of row s st] spec_recommendation_cases [of s]
    strong_buy_includes_buy [of "toUpperCase s"] strong_sell_includes_sell [of "toUpperCase s"]
    spec_strong_buy_signal
  by blast

theorem recommendation_five_way_witness:
  "recClass (toUpperCase ''Strong Buy signal'') = ''rec-strong-buy''
   \<and> countRec [(''trade_recommendation'', Str ''Strong Buy signal'')] zeroRecStats
       = Inr \<lparr>buy = 0, strongBuy = 1, sell = 0, strongSell = 0, total_rec = 1\<rparr>
   \<and> includes_str (toUpperCase ''Strong Buy signal'') ''BUY''
   \<and> recClass (toUpperCase ''strong sell'') = ''rec-strong-sell''
   \<and> includes_str (toUpperCase ''strong sell'') ''SELL''"
proof -
  let ?s = "''Strong Buy signal''"
  let ?row = "[(''trade_recommendation'', Str ?s)]"
  let ?t = "''strong sell''"
  have u: "toUpperCase ?s = ''STRONG BUY SIGNAL''" by code_simp
  have g: "getProp ?row ''trade_recommendation'' = Str ?s" by (simp add: getProp_def)
  have i: "includes_str (toUpperCase ?s) ''STRONG BUY''" unfolding u by simp
  note a = recommendation_five_way [of ?s ?row zeroRecStats]
  from a i have sb: "spec_recommendation ?s = StrongBuy" by blast
  from a have c: "recClass (toUpperCase ?s) =
     (case spec_recommendation ?s of
        StrongBuy \<Rightarrow> ''rec-strong-buy'' | Buy \<Rightarrow> ''rec-buy''
      | StrongSell \<Rightarrow> ''rec-strong-sell'' | Sell \<Rightarrow> ''rec-sell''
      | NoRecommendation \<Rightarrow> [])" by blast
  from a g have r: "countRec ?row zeroRecStats =
          Inr (case spec_recommendation ?s of
             StrongBuy \<Rightarrow> zeroRecStats\<lparr>total_rec := total_rec zeroRecStats + 1, strongBuy := strongBuy zeroRecStats + 1\<rparr>
           | Buy \<Rightarrow> zeroRecStats\<lparr>total_rec := total_rec zeroRecStats + 1, buy := buy zeroRecStats + 1\<rparr>
           | StrongSell \<Rightarrow> zeroRecStats\<lparr>total_rec := total_rec zeroRecStats + 1, strongSell := strongSell zeroRecStats + 1\<rparr>
           | Sell \<Rightarrow> zeroRecStats\<lparr>total_rec := total_rec zeroRecStats + 1, sell := sell zeroRecStats + 1\<rparr>
           | NoRecommendation \<Rightarrow> zeroRecStats\<lparr>total_rec := total_rec zeroRecStats + 1\<rparr>)" by blast
  from a i have b: "includes_str (toUpperCase ?s) ''BUY''" by blast
  have u2: "toUpperCase ?t = ''STRONG SELL''" by code_simp
  have i2: "includes_str (toUpperCase ?t) ''STRONG SELL''" unfolding u2 by simp
  have n2: "\<not> includes_str (toUpperCase ?t) ''BUY''" unfolding u2 by simp
  note a2 = recommendation_five_way [of ?t ?row zeroRecStats]
  from a2 i2 n2 have ss: "spec_recommendation ?t = StrongSell" by blast
  from a2 have c2: "recClass (toUpperCase ?t) =
     (case spec_recommendation ?t of
        StrongBuy \<Rightarrow> ''rec-strong-buy'' | Buy \<Rightarrow> ''rec-buy''
      | StrongSell \<Rightarrow> ''rec-strong-sell'' | Sell \<Rightarrow> ''rec-sell''
      | NoRecommendation \<Rightarrow> [])" by blast
  from a2 i2 have b2: "includes_str (toUpperCase ?t) ''SELL''" by blast
  have 1: "recClass (toUpperCase ?s) = ''rec-strong-buy''" unfolding c sb by simp
  have 2: "countRec ?row zeroRecStats
       = Inr \<lparr>buy = 0, strongBuy = 1, sell = 0, strongSell = 0, total_rec = 1\<rparr>"
    unfolding r sb by (simp add: zeroRecStats_def)
  have 3: "recClass (toUpperCase ?t) = ''rec-strong-sell''" unfolding c2 ss by simp
  from 1 2 b 3 b2 show ?thesis by blast
qed

lemma qualClass_spec:
  "qualClass numText (Str s) =
     (case spec_quality s of Soft \<Rightarrow> ''qual-soft'' | Sharp \<Rightarrow> ''qual-sharp'' | NoQuality \<Rightarrow> [])"
  by (simp add: qualClass_def spec_quality_def orEmpty_Str Let_def)

lemma spec_quality_cases:
  "(spec_quality s = Soft \<longleftrightarrow>
      includes_str (toLowerCase s) ''soft'' \<or> includes_str (toLowerCase s) ''mridu'')
   \<and> (spec_quality s = Sharp \<longleftrightarrow>
      (includes_str (toLowerCase s) ''sharp'' \<or> includes_str (toLowerCase s) ''tikshna'')
      \<and> \<not> includes_str (toLowerCase s) ''soft'' \<and> \<not> includes_str (toLowerCase s) ''mridu'')
   \<and> (spec_quality s = NoQuality \<longleftrightarrow>
      \<not> includes_str (toLowerCase s) ''soft'' \<and> \<not> includes_str (toLowerCase s) ''mridu''
      \<and> \<not> includes_str (toLowerCase s) ''sharp'' \<and> \<not> includes_str (toLowerCase s) ''tikshna'')"
  by (auto simp: spec_quality_def Let_def split: if_splits)

lemma renderNakRow_qualCls:
  "pickField row [''nakshatra_quality''] [''quality'', ''guna'', ''nature''] (Str []) = Str s \<Longrightarrow>
     qualCls (renderNakRow numText sessKey row) = qualClass numText (Str s)"
  by (simp add: renderNakRow_def Let_def)

text \<open>
  Claim C6. The quality class of a row is the one the specification's rule gives for the
  quality text: soft when the lower-cased text contains "soft" or "mridu", otherwise sharp
  when it contains "sharp" or "tikshna", otherwise none; a text with a soft marker is soft
  whether or not it has a sharp marker too.
\<close>

theorem quality_soft_first:
  "qualClass numText (Str s) =
     (case spec_quality s of Soft \<Rightarrow> ''qual-soft'' | Sharp \<Rightarrow> ''qual-sharp'' | NoQuality \<Rightarrow> [])
   \<and> (pickField row [''nakshatra_quality''] [''quality'', ''guna'', ''nature''] (Str []) = Str s \<longrightarrow>
        qualCls (renderNakRow numText sessKey row) = qualClass numText (Str s))
   \<and> (spec_quality s = Soft \<longleftrightarrow>
        includes_str (toLowerCase s) ''soft'' \<or> includes_str (toLowerCase s) ''mridu'')
   \<and> (spec_quality s = Sharp \<longleftrightarrow>
        (includes_str (toLowerCase s) ''sharp'' \<or> includes_str (toLowerCase s) ''tikshna'')
        \<and> \<not> includes_str (toLowerCase s) ''soft'' \<and> \<not> includes_str (toLowerCase s) ''mridu'')
   \<and> (spec_quality s = NoQuality \<longleftrightarrow>
        \<not> includes_str (toLowerCase s) ''soft'' \<and> \<not> includes_str (toLowerCase s) ''mridu''
        \<and> \<not> includes_str (toLowerCase s) ''sharp'' \<and> \<not> includes_str (toLowerCase s) ''tikshna'')
   \<and> ((includes_str (toLowerCase s) ''soft'' \<or> includes_str (toLowerCase s) ''mridu'')
        \<and> (includes_str (toLowerCase s) ''sharp'' \<or> includes_str (toLowerCase s) ''tikshna'')
        \<longrightarrow> qualClass numText (Str s) = ''qual-soft'')"
  using qualClass_spec [of numText s] spec_quality_cases [of s]
    renderNakRow_qualCls [of row s numText sessKey]
  by (auto simp del: includes_str.simps)

theorem quality_soft_first_witness:
  "qualCls (renderNakRow (\<lambda>x. []) ''asia'' [(''guna'', Str ''Tikshna / Mridu'')]) = ''qual-soft''
   \<and> includes_str (toLowerCase ''Tikshna / Mridu'') ''tikshna''"
proof -
  let ?s = "''Tikshna / Mridu''"
  let ?row = "[(''guna'', Str ?s)]"
  have l: "toLowerCase ?s = ''tikshna / mridu''" by code_simp
  have p: "pickField ?row [''nakshatra_quality''] [''quality'', ''guna'', ''nature''] (Str []) = Str ?s"
    by code_simp
  have a: "includes_str (toLowerCase ?s) ''soft'' \<or> includes_str (toLowerCase ?s) ''mridu''"
    unfolding l by simp
  have b: "includes_str (toLowerCase ?s) ''sharp'' \<or> includes_str (toLowerCase ?s) ''tikshna''"
    unfolding l by simp
  from quality_soft_first [of "\<lambda>x. []" ?s ?row "''asia''"] p a b
  have "qualCls (renderNakRow (\<lambda>x. []) ''asia'' ?row) = ''qual-soft''"
    by (simp del: includes_str.simps)
  moreover have "includes_str (toLowerCase ?s) ''tikshna''" unfolding l by simp
  ultimately show ?thesis by simp
qed

lemma countRow_spec:
  assumes "pickField row [''nakshatra_bias''] [''bias'', ''direction''] (Str []) = Str s"
  shows "countRow numText row st = spec_count (spec_direction s) (spec_strong s) st"
proof -
  have b: "biasOf numText row = toLowerCase s"
    using assms by (simp add: biasOf_def orEmpty_Str)
  show ?thesis
  proof (cases "toLowerCase s = []")
    case True
    then show ?thesis
      by (simp add: countRow_def b spec_count_def spec_direction_def spec_strong_def Let_def)
  next
    case False
    then show ?thesis
      by (simp add: countRow_def b spec_count_def spec_direction_def spec_strong_def Let_def
          del: includes_str.simps)
  qed
qed

lemma lower_bullish_to_bearish: "toLowerCase ''Bullish to Bearish'' = ''bullish to bearish''"
  by code_simp

lemma pick_bullish_to_bearish:
  "pickField [(''nakshatra_bias'', Str ''Bullish to Bearish'')] [''nakshatra_bias'']
     [''bias'', ''direction''] (Str []) = Str ''Bullish to Bearish''"
  by code_simp

text \<open>
  Claim C3. The summary (\<open>buildSummary\<close>) follows the rule of the specification: bull first,
  then bear, then neutral. The class of the bias cell (\<open>buildNakshatraRows\<close>) does not: its
  two tests are not chained, the later one overwrites the earlier, and a text with both
  "bull" and "bear" gets the bear class while the summary counts the same row as bull.
\<close>

theorem biasClass_bear_overrides_bull:
  "spec_direction ''Bullish to Bearish'' = Bull
   \<and> countRow numText [(''nakshatra_bias'', Str ''Bullish to Bearish'')] zeroDirStats
       = \<lparr>bull = 1, bear = 0, neutral = 0, strong = 0, total_dir = 1\<rparr>
   \<and> biasClass numText (Str ''Bullish to Bearish'') = ''bias-bear''
   \<and> biasCls (renderNakRow numText ''asia'' [(''nakshatra_bias'', Str ''Bullish to Bearish'')])
       = ''bias-bear''"
proof -
  have d: "spec_direction ''Bullish to Bearish'' = Bull"
    by (simp add: spec_direction_def lower_bullish_to_bearish)
  have s: "\<not> spec_strong ''Bullish to Bearish''"
    by (simp add: spec_strong_def lower_bullish_to_bearish)
  have c: "countRow numText [(''nakshatra_bias'', Str ''Bullish to Bearish'')] zeroDirStats
       = \<lparr>bull = 1, bear = 0, neutral = 0, strong = 0, total_dir = 1\<rparr>"
    by (simp add: countRow_spec [OF pick_bullish_to_bearish] d s spec_count_def zeroDirStats_def)
  have b: "biasClass numText (Str ''Bullish to Bearish'') = ''bias-bear''"
    by (simp add: biasClass_def orEmpty_Str lower_bullish_to_bearish)
  have r: "biasCls (renderNakRow numText ''asia'' [(''nakshatra_bias'', Str ''Bullish to Bearish'')])
       = ''bias-bear''"
    by (simp add: renderNakRow_def pick_bullish_to_bearish b Let_def)
  from d c b r show ?thesis by simp
qed

section \<open>Claims about the session summaries\<close>

lemma set_update_subset: "set (AList.update k v al) \<subseteq> insert (k, v) (set al)"
  by (induction al) auto

lemma map_of_update_same: "map_of (AList.update k v al) k = Some v"
  by (simp add: update_conv')

lemma map_of_update_other: "k' \<noteq> k \<Longrightarrow> map_of (AList.update k v al) k' = map_of al k'"
  by (simp add: update_conv')

lemma countRow_total: "total_dir (countRow numText row st) = total_dir st + 1"
  by (simp add: countRow_def Let_def)

lemma countRow_buckets:
  "bull (countRow numText row st) + bear (countRow numText row st) + neutral (countRow numText row st)
     = bull st + bear st + neutral st + 1"
  by (simp add: countRow_def Let_def)

lemma countRow_strong:
  "strong (countRow numText row st) = strong st \<or> strong (countRow numText row st) = strong st + 1"
  by (simp add: countRow_def Let_def)

lemma countRow_inv: "dirInvariant st \<Longrightarrow> dirInvariant (countRow numText row st)"
  using countRow_total [of numText row st] countRow_buckets [of numText row st]
    countRow_strong [of numText row st]
  unfolding dirInvariant_def by linarith

lemma countRows_inv: "dirInvariant st \<Longrightarrow> dirInvariant (countRows numText rows st)"
  by (induction rows arbitrary: st) (simp_all add: countRow_inv)

lemma countRows_total: "total_dir (countRows numText rows st) = total_dir st + length rows"
  by (induction rows arbitrary: st) (simp_all add: countRow_total)

lemma zeroDirStats_inv: "dirInvariant zeroDirStats"
  by (simp add: dirInvariant_def zeroDirStats_def)

lemma statsSlot_update: "statsSlot (AList.update k v al) k = Own v"
  by (simp add: statsSlot_def update_conv')

lemma statsSlot_OwnD: "statsSlot stats k = Own s \<Longrightarrow> (k, s) \<in> set stats"
  by (auto simp: statsSlot_def split: option.splits if_splits dest: map_of_SomeD)

lemma statsSlot_InheritedD:
  "statsSlot stats k = Inherited \<Longrightarrow> inherited k \<and> k \<notin> fst ` set stats"
  by (auto simp: statsSlot_def map_of_eq_None_iff split: option.splits if_splits)

lemma statsSlot_AbsentD:
  "statsSlot stats k = Absent \<Longrightarrow> \<not> inherited k \<and> k \<notin> fst ` set stats"
  by (auto simp: statsSlot_def map_of_eq_None_iff split: option.splits if_splits)

lemma statsSlot_not_inherited:
  "\<not> inherited k \<Longrightarrow> statsSlot stats k \<noteq> Inherited"
  by (auto simp: statsSlot_def split: option.splits)

lemma nakStats_inv:
  "\<forall>(k, s)\<in>set (sessStats st). dirInvariant s
     \<Longrightarrow> \<forall>(k, s)\<in>set (sessStats (fst (nakStats numText sess st))). dirInvariant s"
proof (induction sess arbitrary: st)
  case Nil
  then show ?case by simp
next
  case (Cons x sess)
  obtain sessKey r where x: "x = (sessKey, r)" by (cases x)
  define st1 where "st1 =
     (case statsSlot (sessStats st) sessKey of
        Absent \<Rightarrow> st\<lparr>sessStats := AList.update sessKey zeroDirStats (sessStats st)\<rparr>
      | _ \<Rightarrow> st)"
  have inv1: "\<forall>(k, s)\<in>set (sessStats st1). dirInvariant s"
    using Cons.prems set_update_subset [of sessKey zeroDirStats "sessStats st"] zeroDirStats_inv
    by (auto simp: st1_def split: slot.splits)
  show ?case
  proof (cases r)
    case NotIterable
    with x inv1 show ?thesis by (simp add: st1_def [symmetric])
  next
    case (Rows rs)
    show ?thesis
    proof (cases "statsSlot (sessStats st1) sessKey")
      case (Own s)
      then have "(sessKey, s) \<in> set (sessStats st1)" by (rule statsSlot_OwnD)
      with inv1 have "dirInvariant s" by auto
      then have "dirInvariant (countRows numText rs s)" by (rule countRows_inv)
      with inv1
      have "\<forall>(k, s)\<in>set (sessStats
               (st1\<lparr>sessStats := AList.update sessKey (countRows numText rs s) (sessStats st1)\<rparr>)).
             dirInvariant s"
        using set_update_subset [of sessKey "countRows numText rs s" "sessStats st1"] by auto
      from Cons.IH [OF this] show ?thesis using x Rows Own by (simp add: st1_def [symmetric])
    next
      case Inherited
      from inv1
      have "\<forall>(k, s)\<in>set (sessStats
               (st1\<lparr>nanWrites := countRowsInherited numText sessKey rs (nanWrites st1)\<rparr>)).
             dirInvariant s"
        by simp
      from Cons.IH [OF this] show ?thesis using x Rows Inherited by (simp add: st1_def [symmetric])
    next
      case Absent
      with x Rows inv1 show ?thesis by (simp add: st1_def [symmetric])
    qed
  qed
qed

lemma nakStats_returns:
  "\<forall>(k, r)\<in>set sess. r \<noteq> NotIterable \<Longrightarrow> snd (nakStats numText sess st) = None"
proof (induction sess arbitrary: st)
  case Nil
  then show ?case by simp
next
  case (Cons x sess)
  obtain sessKey r where x: "x = (sessKey, r)" by (cases x)
  with Cons.prems obtain rs where r: "r = Rows rs" by (cases r) auto
  define st1 where "st1 =
     (case statsSlot (sessStats st) sessKey of
        Absent \<Rightarrow> st\<lparr>sessStats := AList.update sessKey zeroDirStats (sessStats st)\<rparr>
      | _ \<Rightarrow> st)"
  have na: "statsSlot (sessStats st1) sessKey \<noteq> Absent"
    by (cases "statsSlot (sessStats st) sessKey") (simp_all add: st1_def statsSlot_update)
  from Cons.prems have rest: "\<forall>(k, r)\<in>set sess. r \<noteq> NotIterable" by simp
  show ?case
  proof (cases "statsSlot (sessStats st1) sessKey")
    case (Own s)
    with Cons.IH [OF rest] show ?thesis using x r by (simp add: st1_def [symmetric])
  next
    case Inherited
    with Cons.IH [OF rest] show ?thesis using x r by (simp add: st1_def [symmetric])
  next
    case Absent
    with na show ?thesis by simp
  qed
qed

lemma nakStats_keys:
  "snd (nakStats numText sess st) = None \<Longrightarrow>
     fst ` set (sessStats (fst (nakStats numText sess st)))
       = fst ` set (sessStats st) \<union> {k \<in> fst ` set sess. \<not> inherited k}"
proof (induction sess arbitrary: st)
  case Nil
  then show ?case by simp
next
  case (Cons x sess)
  obtain sessKey r where x: "x = (sessKey, r)" by (cases x)
  define st1 where "st1 =
     (case statsSlot (sessStats st) sessKey of
        Absent \<Rightarrow> st\<lparr>sessStats := AList.update sessKey zeroDirStats (sessStats st)\<rparr>
      | _ \<Rightarrow> st)"
  from Cons.prems x obtain rs where r: "r = Rows rs"
    by (cases r) (simp_all add: st1_def [symmetric])
  have keys1: "fst ` set (sessStats st1)
      = fst ` set (sessStats st) \<union> (if inherited sessKey then {} else {sessKey})"
  proof (cases "statsSlot (sessStats st) sessKey")
    case (Own s)
    then have "sessKey \<in> fst ` set (sessStats st)" by (force dest: statsSlot_OwnD)
    with Own show ?thesis by (auto simp: st1_def)
  next
    case Inherited
    with statsSlot_InheritedD [OF Inherited] show ?thesis by (simp add: st1_def)
  next
    case Absent
    with statsSlot_AbsentD [OF Absent] show ?thesis by (auto simp: st1_def dom_update)
  qed
  show ?case
  proof (cases "statsSlot (sessStats st1) sessKey")
    case (Own s)
    let ?st2 = "st1\<lparr>sessStats := AList.update sessKey (countRows numText rs s) (sessStats st1)\<rparr>"
    from Own have in1: "sessKey \<in> fst ` set (sessStats st1)" by (force dest: statsSlot_OwnD)
    from Cons.prems x r Own have "snd (nakStats numText sess ?st2) = None"
      by (simp add: st1_def [symmetric])
    from Cons.IH [OF this]
    have "fst ` set (sessStats (fst (nakStats numText sess ?st2)))
        = fst ` set (sessStats ?st2) \<union> {k \<in> fst ` set sess. \<not> inherited k}" .
    moreover have "fst ` set (sessStats ?st2) = fst ` set (sessStats st1)"
      using in1 by (auto simp: dom_update)
    moreover have "nakStats numText (x # sess) st = nakStats numText sess ?st2"
      using x r Own by (simp add: st1_def [symmetric])
    ultimately show ?thesis using keys1 x by auto
  next
    case Inherited
    let ?st2 = "st1\<lparr>nanWrites := countRowsInherited numText sessKey rs (nanWrites st1)\<rparr>"
    from Cons.prems x r Inherited have "snd (nakStats numText sess ?st2) = None"
      by (simp add: st1_def [symmetric])
    from Cons.IH [OF this]
    have "fst ` set (sessStats (fst (nakStats numText sess ?st2)))
        = fst ` set (sessStats ?st2) \<union> {k \<in> fst ` set sess. \<not> inherited k}" .
    moreover have "nakStats numText (x # sess) st = nakStats numText sess ?st2"
      using x r Inherited by (simp add: st1_def [symmetric])
    ultimately show ?thesis using keys1 x by auto
  next
    case Absent
    with Cons.prems x r show ?thesis by (simp add: st1_def [symmetric])
  qed
qed

lemma nakStats_no_writes:
  "\<forall>(k, r)\<in>set sess. \<not> inherited k \<Longrightarrow>
     nanWrites (fst (nakStats numText sess st)) = nanWrites st"
proof (induction sess arbitrary: st)
  case Nil
  then show ?case by simp
next
  case (Cons x sess)
  obtain sessKey r where x: "x = (sessKey, r)" by (cases x)
  define st1 where "st1 =
     (case statsSlot (sessStats st) sessKey of
        Absent \<Rightarrow> st\<lparr>sessStats := AList.update sessKey zeroDirStats (sessStats st)\<rparr>
      | _ \<Rightarrow> st)"
  have w1: "nanWrites st1 = nanWrites st" by (simp add: st1_def split: slot.splits)
  from Cons.prems x have ni: "statsSlot (sessStats st1) sessKey \<noteq> Inherited"
    by (simp add: statsSlot_not_inherited)
  from Cons.prems have rest: "\<forall>(k, r)\<in>set sess. \<not> inherited k" by simp
  show ?case
  proof (cases r)
    case NotIterable
    with x w1 show ?thesis by (simp add: st1_def [symmetric])
  next
    case (Rows rs)
    show ?thesis
    proof (cases "statsSlot (sessStats st1) sessKey")
      case (Own s)
      with Cons.IH [OF rest] x Rows w1 show ?thesis by (simp add: st1_def [symmetric])
    next
      case Inherited
      with ni show ?thesis by simp
    next
      case Absent
      with x Rows w1 show ?thesis by (simp add: st1_def [symmetric])
    qed
  qed
qed

lemma countRec_total: "countRec row st = Inr st' \<Longrightarrow> total_rec st' = total_rec st + 1"
  by (auto simp: countRec_def Let_def split: sum.splits if_splits)

lemma countRec_buckets:
  "countRec row st = Inr st' \<Longrightarrow>
     buy st' + strongBuy st' + sell st' + strongSell st'
       \<le> buy st + strongBuy st + sell st + strongSell st + 1"
  by (auto simp: countRec_def Let_def split: sum.splits if_splits)

lemma countRec_inv: "recInvariant st \<Longrightarrow> countRec row st = Inr st' \<Longrightarrow> recInvariant st'"
  using countRec_total [of row st st'] countRec_buckets [of row st st']
  unfolding recInvariant_def by linarith

lemma countRecs_inv: "recInvariant st \<Longrightarrow> countRecs rows st = Inr st' \<Longrightarrow> recInvariant st'"
proof (induction rows arbitrary: st)
  case Nil
  then show ?case by simp
next
  case (Cons row rows)
  from Cons.prems(2) obtain st1 where 1: "countRec row st = Inr st1" and 2: "countRecs rows st1 = Inr st'"
    by (auto split: sum.splits)
  from countRec_inv [OF Cons.prems(1) 1] have "recInvariant st1" .
  from Cons.IH [OF this 2] show ?case .
qed

lemma countRecs_total: "countRecs rows st = Inr st' \<Longrightarrow> total_rec st' = total_rec st + length rows"
proof (induction rows arbitrary: st)
  case Nil
  then show ?case by simp
next
  case (Cons row rows)
  from Cons.prems obtain st1 where 1: "countRec row st = Inr st1" and 2: "countRecs rows st1 = Inr st'"
    by (auto split: sum.splits)
  from countRec_total [OF 1] Cons.IH [OF 2] show ?case by simp
qed

lemma zeroRecStats_inv: "recInvariant zeroRecStats"
  by (simp add: recInvariant_def zeroRecStats_def)

lemma appStats_inv:
  "\<forall>(k, s)\<in>set (sessStats st). recInvariant s
     \<Longrightarrow> \<forall>(k, s)\<in>set (sessStats (fst (appStats sess st))). recInvariant s"
proof (induction sess arbitrary: st)
  case Nil
  then show ?case by simp
next
  case (Cons x sess)
  obtain sessKey r where x: "x = (sessKey, r)" by (cases x)
  define st1 where "st1 =
     (case statsSlot (sessStats st) sessKey of
        Absent \<Rightarrow> st\<lparr>sessStats := AList.update sessKey zeroRecStats (sessStats st)\<rparr>
      | _ \<Rightarrow> st)"
  have inv1: "\<forall>(k, s)\<in>set (sessStats st1). recInvariant s"
    using Cons.prems set_update_subset [of sessKey zeroRecStats "sessStats st"] zeroRecStats_inv
    by (auto simp: st1_def split: slot.splits)
  show ?case
  proof (cases r)
    case NotIterable
    with x inv1 show ?thesis by (simp add: st1_def [symmetric])
  next
    case (Rows rs)
    show ?thesis
    proof (cases "statsSlot (sessStats st1) sessKey")
      case (Own s)
      then have "(sessKey, s) \<in> set (sessStats st1)" by (rule statsSlot_OwnD)
      with inv1 have invs: "recInvariant s" by auto
      show ?thesis
      proof (cases "countRecs rs s")
        case (Inl e)
        with x Rows Own inv1 show ?thesis by (simp add: st1_def [symmetric])
      next
        case (Inr s')
        from countRecs_inv [OF invs Inr] have "recInvariant s'" .
        with inv1
        have "\<forall>(k, s)\<in>set (sessStats (st1\<lparr>sessStats := AList.update sessKey s' (sessStats st1)\<rparr>)).
               recInvariant s"
          using set_update_subset [of sessKey s' "sessStats st1"] by auto
        from Cons.IH [OF this] show ?thesis using x Rows Own Inr by (simp add: st1_def [symmetric])
      qed
    next
      case Inherited
      obtain w eo where c: "countRecsInherited sessKey rs (nanWrites st1) = (w, eo)"
        by (cases "countRecsInherited sessKey rs (nanWrites st1)")
      from inv1 have i2: "\<forall>(k, s)\<in>set (sessStats (st1\<lparr>nanWrites := w\<rparr>)). recInvariant s" by simp
      show ?thesis
      proof (cases eo)
        case None
        from Cons.IH [OF i2] show ?thesis using x Rows Inherited c None by (simp add: st1_def [symmetric])
      next
        case (Some e)
        with i2 show ?thesis using x Rows Inherited c by (simp add: st1_def [symmetric])
      qed
    next
      case Absent
      with x Rows inv1 show ?thesis by (simp add: st1_def [symmetric])
    qed
  qed
qed

lemma countRow_mono:
  "bull st \<le> bull (countRow numText row st) \<and> bear st \<le> bear (countRow numText row st)
   \<and> neutral st \<le> neutral (countRow numText row st)"
  by (simp add: countRow_def Let_def)

lemma countRecs_returns:
  "\<forall>row\<in>set rows. \<exists>u. recTextOf row = Inr u \<Longrightarrow> \<exists>st'. countRecs rows st = Inr st'"
proof (induction rows arbitrary: st)
  case Nil
  then show ?case by simp
next
  case (Cons row rows)
  then obtain u where "recTextOf row = Inr u" by auto
  then obtain st1 where 1: "countRec row st = Inr st1" by (simp add: countRec_def Let_def)
  from Cons.prems have "\<forall>row\<in>set rows. \<exists>u. recTextOf row = Inr u" by simp
  from Cons.IH [OF this, of st1] 1 show ?case by simp
qed

lemma countRecsInherited_returns:
  "\<forall>row\<in>set rows. \<exists>u. recTextOf row = Inr u \<Longrightarrow> snd (countRecsInherited sessKey rows w) = None"
proof (induction rows arbitrary: w)
  case Nil
  then show ?case by simp
next
  case (Cons row rows)
  then obtain u where u: "recTextOf row = Inr u" by auto
  from Cons.prems have "\<forall>row\<in>set rows. \<exists>u. recTextOf row = Inr u" by simp
  from Cons.IH [OF this, of "countRecInherited sessKey u w"] u show ?case by simp
qed

lemma appStats_returns:
  "\<forall>(k, r)\<in>set sess. \<exists>rs. r = Rows rs \<and> (\<forall>row\<in>set rs. \<exists>u. recTextOf row = Inr u)
     \<Longrightarrow> snd (appStats sess st) = None"
proof (induction sess arbitrary: st)
  case Nil
  then show ?case by simp
next
  case (Cons x sess)
  obtain sessKey r where x: "x = (sessKey, r)" by (cases x)
  with Cons.prems obtain rs where r: "r = Rows rs"
    and rows: "\<forall>row\<in>set rs. \<exists>u. recTextOf row = Inr u" by auto
  define st1 where "st1 =
     (case statsSlot (sessStats st) sessKey of
        Absent \<Rightarrow> st\<lparr>sessStats := AList.update sessKey zeroRecStats (sessStats st)\<rparr>
      | _ \<Rightarrow> st)"
  have na: "statsSlot (sessStats st1) sessKey \<noteq> Absent"
    by (cases "statsSlot (sessStats st) sessKey") (simp_all add: st1_def statsSlot_update)
  from Cons.prems
  have rest: "\<forall>(k, r)\<in>set sess. \<exists>rs. r = Rows rs \<and> (\<forall>row\<in>set rs. \<exists>u. recTextOf row = Inr u)"
    by simp
  show ?case
  proof (cases "statsSlot (sessStats st1) sessKey")
    case (Own s)
    from countRecs_returns [OF rows, of s] obtain s' where c: "countRecs rs s = Inr s'" by blast
    with Cons.IH [OF rest] show ?thesis using x r Own by (simp add: st1_def [symmetric])
  next
    case Inherited
    obtain w eo where c: "countRecsInherited sessKey rs (nanWrites st1) = (w, eo)"
      by (cases "countRecsInherited sessKey rs (nanWrites st1)")
    with countRecsInherited_returns [OF rows, of sessKey "nanWrites st1"] have "eo = None" by simp
    with c Cons.IH [OF rest] show ?thesis using x r Inherited by (simp add: st1_def [symmetric])
  next
    case Absent
    with na show ?thesis by simp
  qed
qed

lemma appStats_keys:
  "snd (appStats sess st) = None \<Longrightarrow>
     fst ` set (sessStats (fst (appStats sess st)))
       = fst ` set (sessStats st) \<union> {k \<in> fst ` set sess. \<not> inherited k}"
proof (induction sess arbitrary: st)
  case Nil
  then show ?case by simp
next
  case (Cons x sess)
  obtain sessKey r where x: "x = (sessKey, r)" by (cases x)
  define st1 where "st1 =
     (case statsSlot (sessStats st) sessKey of
        Absent \<Rightarrow> st\<lparr>sessStats := AList.update sessKey zeroRecStats (sessStats st)\<rparr>
      | _ \<Rightarrow> st)"
  from Cons.prems x obtain rs where r: "r = Rows rs"
    by (cases r) (simp_all add: st1_def [symmetric])
  have keys1: "fst ` set (sessStats st1)
      = fst ` set (sessStats st) \<union> (if inherited sessKey then {} else {sessKey})"
  proof (cases "statsSlot (sessStats st) sessKey")
    case (Own s)
    then have "sessKey \<in> fst ` set (sessStats st)" by (force dest: statsSlot_OwnD)
    with Own show ?thesis by (auto simp: st1_def)
  next
    case Inherited
    with statsSlot_InheritedD [OF Inherited] show ?thesis by (simp add: st1_def)
  next
    case Absent
    with statsSlot_AbsentD [OF Absent] show ?thesis by (auto simp: st1_def dom_update)
  qed
  show ?case
  proof (cases "statsSlot (sessStats st1) sessKey")
    case (Own s)
    from Own have in1: "sessKey \<in> fst ` set (sessStats st1)" by (force dest: statsSlot_OwnD)
    from Cons.prems x r Own obtain s' where c: "countRecs rs s = Inr s'"
      by (cases "countRecs rs s") (simp_all add: st1_def [symmetric])
    let ?st2 = "st1\<lparr>sessStats := AList.update sessKey s' (sessStats st1)\<rparr>"
    have eq: "appStats (x # sess) st = appStats sess ?st2"
      using x r Own c by (simp add: st1_def [symmetric])
    with Cons.prems have "snd (appStats sess ?st2) = None" by simp
    from Cons.IH [OF this]
    have "fst ` set (sessStats (fst (appStats sess ?st2)))
        = fst ` set (sessStats ?st2) \<union> {k \<in> fst ` set sess. \<not> inherited k}" .
    moreover have "fst ` set (sessStats ?st2) = fst ` set (sessStats st1)"
      using in1 by (auto simp: dom_update)
    ultimately show ?thesis using keys1 x eq by auto
  next
    case Inherited
    obtain w eo where c: "countRecsInherited sessKey rs (nanWrites st1) = (w, eo)"
      by (cases "countRecsInherited sessKey rs (nanWrites st1)")
    from Cons.prems x r Inherited c have eo: "eo = None"
      by (cases eo) (simp_all add: st1_def [symmetric])
    let ?st2 = "st1\<lparr>nanWrites := w\<rparr>"
    have eq: "appStats (x # sess) st = appStats sess ?st2"
      using x r Inherited c eo by (simp add: st1_def [symmetric])
    with Cons.prems have "snd (appStats sess ?st2) = None" by simp
    from Cons.IH [OF this]
    have "fst ` set (sessStats (fst (appStats sess ?st2)))
        = fst ` set (sessStats ?st2) \<union> {k \<in> fst ` set sess. \<not> inherited k}" .
    then show ?thesis using keys1 x eq by auto
  next
    case Absent
    with Cons.prems x r show ?thesis by (simp add: st1_def [symmetric])
  qed
qed

text \<open>
  Claim C5. Every session summary the nakshatra view computes satisfies
  bull + bear + neutral = total and strong \<le> total: each row adds one to the total and
  to exactly one of the three direction buckets, and at most one to the strong tally.
  Every session summary the report view computes satisfies
  buy + strongBuy + sell + strongSell \<le> total: each row adds one to the total and to at
  most one bucket. The totals are the numbers of rows. The nakshatra summaries are
  computed whenever every session holds a list of rows, the report summaries whenever
  moreover every recommendation is a text or absent; there is then one summary for each
  session whose key does not name a member of \<open>Object.prototype\<close>, and none for the others.
\<close>

theorem summary_invariants:
  "dirInvariant (countRows numText rows zeroDirStats)
   \<and> total_dir (countRows numText rows zeroDirStats) = length rows
   \<and> (\<forall>(k, s)\<in>set (sessStats (fst (nakStats numText sess \<lparr>sessStats = [], nanWrites = []\<rparr>))).
        dirInvariant s)
   \<and> ((\<forall>(k, r)\<in>set sess. r \<noteq> NotIterable) \<longrightarrow>
        snd (nakStats numText sess \<lparr>sessStats = [], nanWrites = []\<rparr>) = None)
   \<and> (snd (nakStats numText sess \<lparr>sessStats = [], nanWrites = []\<rparr>) = None \<longrightarrow>
        fst ` set (sessStats (fst (nakStats numText sess \<lparr>sessStats = [], nanWrites = []\<rparr>)))
          = {k \<in> fst ` set sess. \<not> inherited k})
   \<and> (\<forall>s. countRecs rows zeroRecStats = Inr s \<longrightarrow> recInvariant s \<and> total_rec s = length rows)
   \<and> (\<forall>(k, s)\<in>set (sessStats (fst (appStats sess \<lparr>sessStats = [], nanWrites = []\<rparr>))).
        recInvariant s)
   \<and> ((\<forall>(k, r)\<in>set sess. \<exists>rs. r = Rows rs \<and> (\<forall>row\<in>set rs. \<exists>u. recTextOf row = Inr u))
        \<longrightarrow> snd (appStats sess \<lparr>sessStats = [], nanWrites = []\<rparr>) = None)
   \<and> (snd (appStats sess \<lparr>sessStats = [], nanWrites = []\<rparr>) = None \<longrightarrow>
        fst ` set (sessStats (fst (appStats sess \<lparr>sessStats = [], nanWrites = []\<rparr>)))
          = {k \<in> fst ` set sess. \<not> inherited k})
   \<and> total_dir (countRow numText row st) = total_dir st + 1
   \<and> bull (countRow numText row st) + bear (countRow numText row st) + neutral (countRow numText row st)
        = bull st + bear st + neutral st + 1
   \<and> bull st \<le> bull (countRow numText row st) \<and> bear st \<le> bear (countRow numText row st)
   \<and> neutral st \<le> neutral (countRow numText row st)
   \<and> (strong (countRow numText row st) = strong st \<or> strong (countRow numText row st) = strong st + 1)
   \<and> (\<forall>rt'. countRec row rt = Inr rt' \<longrightarrow>
        total_rec rt' = total_rec rt + 1
        \<and> buy rt' + strongBuy rt' + sell rt' + strongSell rt'
             \<le> buy rt + strongBuy rt + sell rt + strongSell rt + 1)"
proof -
  let ?n0 = "\<lparr>sessStats = [], nanWrites = []\<rparr> :: dir_stats stats_state"
  let ?a0 = "\<lparr>sessStats = [], nanWrites = []\<rparr> :: rec_stats stats_state"
  have 1: "dirInvariant (countRows numText rows zeroDirStats)"
    by (rule countRows_inv [OF zeroDirStats_inv])
  have 2: "total_dir (countRows numText rows zeroDirStats) = length rows"
    by (simp add: countRows_total zeroDirStats_def)
  have 3: "\<forall>(k, s)\<in>set (sessStats (fst (nakStats numText sess ?n0))). dirInvariant s"
    by (rule nakStats_inv) simp
  have 4: "(\<forall>(k, r)\<in>set sess. r \<noteq> NotIterable) \<longrightarrow> snd (nakStats numText sess ?n0) = None"
    using nakStats_returns [of sess numText ?n0] by blast
  have 5: "snd (nakStats numText sess ?n0) = None \<longrightarrow>
        fst ` set (sessStats (fst (nakStats numText sess ?n0))) = {k \<in> fst ` set sess. \<not> inherited k}"
    using nakStats_keys [of numText sess ?n0] by simp
  have 6: "\<forall>s. countRecs rows zeroRecStats = Inr s \<longrightarrow> recInvariant s \<and> total_rec s = length rows"
    using countRecs_inv [OF zeroRecStats_inv, of rows] countRecs_total [of rows zeroRecStats]
    by (simp add: zeroRecStats_def)
  have 7: "\<forall>(k, s)\<in>set (sessStats (fst (appStats sess ?a0))). recInvariant s"
    by (rule appStats_inv) simp
  have 8: "(\<forall>(k, r)\<in>set sess. \<exists>rs. r = Rows rs \<and> (\<forall>row\<in>set rs. \<exists>u. recTextOf row = Inr u))
        \<longrightarrow> snd (appStats sess ?a0) = None"
    using appStats_returns [of sess ?a0] by blast
  have 9: "snd (appStats sess ?a0) = None \<longrightarrow>
        fst ` set (sessStats (fst (appStats sess ?a0))) = {k \<in> fst ` set sess. \<not> inherited k}"
    using appStats_keys [of sess ?a0] by simp
  have 10: "\<forall>rt'. countRec row rt = Inr rt' \<longrightarrow>
        total_rec rt' = total_rec rt + 1
        \<and> buy rt' + strongBuy rt' + sell rt' + strongSell rt'
             \<le> buy rt + strongBuy rt + sell rt + strongSell rt + 1"
    using countRec_total [of row rt] countRec_buckets [of row rt] by blast
  note 11 = countRow_total [of numText row st] countRow_buckets [of numText row st]
    countRow_mono [of st numText row] countRow_strong [of numText row st]
  show ?thesis
    apply (intro conjI)
    using 1 2 3 4 5 6 7 8 9 10 11 by blast+
qed

theorem summary_invariants_witness:
  "nakStats (\<lambda>x. [])
      [(''constructor'', Rows [[(''bias'', Str ''bullish'')]]),
       (''asia'', Rows [[(''bias'', Str ''Strong Bullish'')], [(''direction'', Str ''bearish'')], []]),
       (''london'', Rows [])] \<lparr>sessStats = [], nanWrites = []\<rparr>
     = (\<lparr>sessStats =
           [(''asia'', \<lparr>bull = 1, bear = 1, neutral = 1, strong = 1, total_dir = 3\<rparr>),
            (''london'', \<lparr>bull = 0, bear = 0, neutral = 0, strong = 0, total_dir = 0\<rparr>)],
         nanWrites = [(''constructor'', ''bull''), (''constructor'', ''total'')]\<rparr>, None)
   \<and> dirInvariant \<lparr>bull = 1, bear = 1, neutral = 1, strong = 1, total_dir = 3\<rparr>
   \<and> appStats
      [(''asia'', Rows [[(''trade_recommendation'', Str ''Strong Sell'')], [(''trade_recommendation'', Str ''hold'')]])]
      \<lparr>sessStats = [], nanWrites = []\<rparr>
     = (\<lparr>sessStats = [(''asia'', \<lparr>buy = 0, strongBuy = 0, sell = 0, strongSell = 1, total_rec = 2\<rparr>)],
         nanWrites = []\<rparr>, None)
   \<and> recInvariant \<lparr>buy = 0, strongBuy = 0, sell = 0, strongSell = 1, total_rec = 2\<rparr>
   \<and> total_rec \<lparr>buy = 0, strongBuy = 0, sell = 0, strongSell = 1, total_rec = 2\<rparr>
       = length [[(''trade_recommendation'', Str ''Strong Sell'')], [(''trade_recommendation'', Str ''hold'')]]
   \<and> total_rec \<lparr>buy = 0, strongBuy = 0, sell = 0, strongSell = 1, total_rec = 1\<rparr>
       = total_rec zeroRecStats + 1"
proof -
  let ?nt = "\<lambda>x::real. ([]::string)"
  let ?n0 = "\<lparr>sessStats = [], nanWrites = []\<rparr> :: dir_stats stats_state"
  let ?a0 = "\<lparr>sessStats = [], nanWrites = []\<rparr> :: rec_stats stats_state"
  let ?nsess = "[(''constructor'', Rows [[(''bias'', Str ''bullish'')]]),
       (''asia'', Rows [[(''bias'', Str ''Strong Bullish'')], [(''direction'', Str ''bearish'')], []]),
       (''london'', Rows [])]"
  let ?r1 = "[(''trade_recommendation'', Str ''Strong Sell'')]"
  let ?r2 = "[(''trade_recommendation'', Str ''hold'')]"
  let ?asess = "[(''asia'', Rows [?r1, ?r2])]"
  let ?ns = "\<lparr>bull = 1, bear = 1, neutral = 1, strong = 1, total_dir = 3\<rparr>"
  let ?ls = "\<lparr>bull = 0, bear = 0, neutral = 0, strong = 0, total_dir = 0\<rparr>"
  let ?as = "\<lparr>buy = 0, strongBuy = 0, sell = 0, strongSell = 1, total_rec = 2\<rparr>"
  let ?a1 = "\<lparr>buy = 0, strongBuy = 0, sell = 0, strongSell = 1, total_rec = 1\<rparr>"
  have n: "nakStats ?nt ?nsess ?n0
     = (\<lparr>sessStats = [(''asia'', ?ns), (''london'', ?ls)],
         nanWrites = [(''constructor'', ''bull''), (''constructor'', ''total'')]\<rparr>, None)"
    by code_simp
  have a: "appStats ?asess ?a0 = (\<lparr>sessStats = [(''asia'', ?as)], nanWrites = []\<rparr>, None)"
    by code_simp
  have c: "countRecs [?r1, ?r2] zeroRecStats = Inr ?as" by code_simp
  have c1: "countRec ?r1 zeroRecStats = Inr ?a1" by code_simp
  have hn: "\<forall>(k, r)\<in>set ?nsess. r \<noteq> NotIterable" by simp
  have t1: "recTextOf ?r1 = Inr ''STRONG SELL''" by code_simp
  have t2: "recTextOf ?r2 = Inr ''HOLD''" by code_simp
  have ha: "\<forall>(k, r)\<in>set ?asess. \<exists>rs. r = Rows rs \<and> (\<forall>row\<in>set rs. \<exists>u. recTextOf row = Inr u)"
    using t1 t2 by simp
  note tn = summary_invariants [of ?nt "[?r1, ?r2]" ?nsess ?r1 zeroDirStats zeroRecStats]
  note ta = summary_invariants [of ?nt "[?r1, ?r2]" ?asess ?r1 zeroDirStats zeroRecStats]
  note tn3 = tn [THEN conjunct2, THEN conjunct2, THEN conjunct1]
  note tn4 = tn [THEN conjunct2, THEN conjunct2, THEN conjunct2, THEN conjunct1]
  note tn5 = tn [THEN conjunct2, THEN conjunct2, THEN conjunct2, THEN conjunct2, THEN conjunct1]
  note ta6 = ta [THEN conjunct2, THEN conjunct2, THEN conjunct2, THEN conjunct2, THEN conjunct2,
    THEN conjunct1]
  note ta7 = ta [THEN conjunct2, THEN conjunct2, THEN conjunct2, THEN conjunct2, THEN conjunct2,
    THEN conjunct2, THEN conjunct1]
  note ta8 = ta [THEN conjunct2, THEN conjunct2, THEN conjunct2, THEN conjunct2, THEN conjunct2,
    THEN conjunct2, THEN conjunct2, THEN conjunct1]
  note ta9 = ta [THEN conjunct2, THEN conjunct2, THEN conjunct2, THEN conjunct2, THEN conjunct2,
    THEN conjunct2, THEN conjunct2, THEN conjunct2, THEN conjunct1]
  note ta16 = ta [THEN conjunct2, THEN conjunct2, THEN conjunct2, THEN conjunct2, THEN conjunct2,
    THEN conjunct2, THEN conjunct2, THEN conjunct2, THEN conjunct2, THEN conjunct2,
    THEN conjunct2, THEN conjunct2, THEN conjunct2, THEN conjunct2, THEN conjunct2]
  from tn4 hn have sn: "snd (nakStats ?nt ?nsess ?n0) = None" by (rule mp)
  from tn5 sn have kn: "fst ` set (sessStats (fst (nakStats ?nt ?nsess ?n0)))
      = {k \<in> fst ` set ?nsess. \<not> inherited k}" by (rule mp)
  from ta8 ha have sa: "snd (appStats ?asess ?a0) = None" by (rule mp)
  from ta9 sa have ka: "fst ` set (sessStats (fst (appStats ?asess ?a0)))
      = {k \<in> fst ` set ?asess. \<not> inherited k}" by (rule mp)
  from tn3 have 1: "dirInvariant ?ns" unfolding n by simp
  from ta7 have 2: "recInvariant ?as" unfolding a by simp
  from ta6 [rule_format, OF c] have 3: "total_rec ?as = length [?r1, ?r2]" by (rule conjunct2)
  from ta16 [rule_format, OF c1] have 4: "total_rec ?a1 = total_rec zeroRecStats + 1"
    by (rule conjunct1)
  show ?thesis
    apply (intro conjI)
    using n 1 a 2 3 4 by blast+
qed

section \<open>Claims about purity\<close>

lemma countRow_add:
  "countRow numText row st = addDirStats st (countRow numText row zeroDirStats)"
  by (simp add: countRow_def addDirStats_def zeroDirStats_def Let_def)

lemma countRow_bias_only:
  "biasOf numText row = biasOf numText row' \<Longrightarrow> countRow numText row st = countRow numText row' st"
  by (simp add: countRow_def)

lemma pick_bullish:
  "pickField [(''nakshatra_bias'', Str ''Bullish'')] [''nakshatra_bias'']
     [''bias'', ''direction''] (Str []) = Str ''Bullish''"
  by code_simp

lemma lower_bullish: "toLowerCase ''Bullish'' = ''bullish''"
  by code_simp

lemma biasOf_bullish: "biasOf numText [(''nakshatra_bias'', Str ''Bullish'')] = ''bullish''"
  by (simp add: biasOf_def pick_bullish orEmpty_Str lower_bullish)

lemma inherited_proto: "inherited ''__proto__''"
  by (simp add: inherited_def protoMembers_def)

lemma not_inherited_asia: "\<not> inherited ''asia''"
  by (simp add: inherited_def protoMembers_def)

text \<open>
  Claim C9. For a session whose key does not name a member of \<open>Object.prototype\<close>, the
  loop body of \<open>buildSummary\<close> changes the counters of that session only, by counts that
  depend on the bias text of the row alone (lemmas \<open>countRow_add\<close>, \<open>countRow_bias_only\<close>,
  \<open>nakStats_no_writes\<close>). For a session named \<open>__proto__\<close> it does have an effect outside
  the summary: \<open>stats[sessKey]\<close> is the shared prototype, the increments leave \<open>NaN\<close> in its
  properties \<open>total\<close> and \<open>bull\<close>, and the session gets no summary.
\<close>

theorem buildSummary_writes_prototype:
  "nakStats numText [(''__proto__'', Rows [[(''nakshatra_bias'', Str ''Bullish'')]])]
      \<lparr>sessStats = [], nanWrites = []\<rparr>
     = (\<lparr>sessStats = [], nanWrites = [(''__proto__'', ''bull''), (''__proto__'', ''total'')]\<rparr>, None)
   \<and> buildSummary_nak numText [(''__proto__'', Rows [[(''nakshatra_bias'', Str ''Bullish'')]])] tf
     = Inr [NoRowsPill]
   \<and> nakStats numText [(''asia'', Rows [[(''nakshatra_bias'', Str ''Bullish'')]])]
      \<lparr>sessStats = [], nanWrites = []\<rparr>
     = (\<lparr>sessStats = [(''asia'', \<lparr>bull = 1, bear = 0, neutral = 0, strong = 0, total_dir = 1\<rparr>)],
         nanWrites = []\<rparr>, None)"
proof -
  let ?row = "[(''nakshatra_bias'', Str ''Bullish'')]"
  let ?s0 = "\<lparr>sessStats = [], nanWrites = []\<rparr> :: dir_stats stats_state"
  have w: "countRowInherited numText ''__proto__'' ?row []
      = [(''__proto__'', ''bull''), (''__proto__'', ''total'')]"
    by (simp add: countRowInherited_def biasOf_bullish)
  have c: "countRow numText ?row zeroDirStats
      = \<lparr>bull = 1, bear = 0, neutral = 0, strong = 0, total_dir = 1\<rparr>"
    by (simp add: countRow_def biasOf_bullish zeroDirStats_def)
  have 1: "nakStats numText [(''__proto__'', Rows [?row])] ?s0
     = (\<lparr>sessStats = [], nanWrites = [(''__proto__'', ''bull''), (''__proto__'', ''total'')]\<rparr>, None)"
    by (simp add: statsSlot_def inherited_proto w)
  have 2: "buildSummary_nak numText [(''__proto__'', Rows [?row])] tf = Inr [NoRowsPill]"
    unfolding buildSummary_nak_def 1 by simp
  have 3: "nakStats numText [(''asia'', Rows [?row])] ?s0
     = (\<lparr>sessStats = [(''asia'', \<lparr>bull = 1, bear = 0, neutral = 0, strong = 0, total_dir = 1\<rparr>)],
         nanWrites = []\<rparr>, None)"
    by (simp add: statsSlot_def not_inherited_asia c update_conv')
  from 1 2 3 show ?thesis by simp
qed

section \<open>Claims about failed loads\<close>

lemma loadNakshatra_http_error:
  "date \<noteq> [] \<Longrightarrow> \<not> res_ok res \<Longrightarrow>
     loadNakshatra numText date tf (Response res) =
       \<lparr>nak_status = StatusErr
          (Error (''HTTP '' @ showNat (res_status res) @ '': '' @ take 200 (res_text res))),
        nakBody = [], summaryRow = []\<rparr>"
  by (simp add: loadNakshatra_def)

lemma loadReport_http_error:
  "\<not> res_ok res \<Longrightarrow>
     loadReport tf (Response res) =
       \<lparr>app_status = StatusErr (Error (''HTTP '' @ showNat (res_status res))),
        tableContainer = None, summaryRowA = []\<rparr>"
  by (simp add: loadReport_def)

lemma showNat_500: "showNat 500 = ''500''"
  by code_simp

lemma loadReport_ignores_body:
  "loadReport tf (Response (res\<lparr>res_text := b\<rparr>)) = loadReport tf (Response res)"
  by (simp add: loadReport_def res_ok_def Let_def cong: if_cong)

text \<open>
  Claim C7. On a response whose status is not in 200 to 299, \<open>loadNakshatra\<close> stops with
  the error text "HTTP", the status code and the first 200 characters of the body, and
  shows nothing else (lemma \<open>loadNakshatra_http_error\<close>). \<open>loadReport\<close> of app.js stops
  too and shows nothing else, but its error text carries the status code only: the body
  of the response is dropped.
\<close>

theorem loadReport_drops_body:
  "loadReport tf (Response \<lparr>res_status = 500, res_text = ''database is down'', res_json = None\<rparr>)
     = \<lparr>app_status = StatusErr (Error ''HTTP 500''), tableContainer = None, summaryRowA = []\<rparr>
   \<and> loadNakshatra numText ''2024-01-01'' tf
        (Response \<lparr>res_status = 500, res_text = ''database is down'', res_json = None\<rparr>)
     = \<lparr>nak_status = StatusErr (Error ''HTTP 500: database is down''), nakBody = [], summaryRow = []\<rparr>"
proof -
  let ?res = "\<lparr>res_status = 500, res_text = ''database is down'', res_json = None\<rparr>"
  have n: "\<not> res_ok ?res" by (simp add: res_ok_def)
  have d: "''2024-01-01'' \<noteq> []" by simp
  show ?thesis
    unfolding loadReport_http_error [OF n] loadNakshatra_http_error [OF d n]
    by (simp add: showNat_500)
qed

lemma tableRows_error: "tableRows sess = Inl e \<Longrightarrow> e = TypeError"
proof (induction sess rule: tableRows.induct)
  case 1
  then show ?case by simp
next
  case (2 sessKey rest)
  then show ?case by simp
next
  case (3 sessKey rows rest)
  have r: "renderAppRows sessKey rows = Inl e \<Longrightarrow> e = TypeError" for e
    by (induction rows)
      (auto simp: renderAppRow_def biasTextOf_def recTextOf_def
        split: sum.splits jsval.splits if_splits)
  from 3 r show ?case by (auto split: sum.splits)
qed

lemma tableRows_NotIterable:
  "(k, NotIterable) \<in> set sess \<Longrightarrow> tableRows sess = Inl TypeError"
proof (induction sess rule: tableRows.induct)
  case 1
  then show ?case by simp
next
  case (2 sessKey rest)
  then show ?case by simp
next
  case (3 sessKey rows rest)
  show ?case
  proof (cases "renderAppRows sessKey rows")
    case (Inl e)
    then have "tableRows ((sessKey, Rows rows) # rest) = Inl e" by simp
    with tableRows_error [of "(sessKey, Rows rows) # rest" e] show ?thesis by simp
  next
    case (Inr trs)
    with 3 have "tableRows rest = Inl TypeError" by simp
    with Inr show ?thesis by simp
  qed
qed

lemma buildNakshatraRows_NotIterable:
  "(k, NotIterable) \<in> set sess \<Longrightarrow> snd (buildNakshatraRows numText sess tbody) = Some TypeError"
  by (induction numText sess tbody rule: buildNakshatraRows.induct) auto

lemma loadNakshatra_no_sessions:
  assumes "date \<noteq> []" and "res_ok res"
    and "res_json res = Some PNull \<or> res_json res = Some (PObject None)"
  shows "loadNakshatra numText date tf (Response res) =
       \<lparr>nak_status = StatusErr (Error ''No session data returned from API.''),
        nakBody = [], summaryRow = []\<rparr>"
  using assms by (auto simp: loadNakshatra_def)

lemma loadReport_no_sessions:
  assumes "res_ok res" and "res_json res = Some (PObject None)"
  shows "loadReport tf (Response res) =
       \<lparr>app_status = StatusOk, tableContainer = Some [], summaryRowA = [NoRowsPill]\<rparr>"
  using assms by (simp add: loadReport_def buildTable_def buildSummary_app_def)

lemma loadReport_null:
  assumes "res_ok res" and "res_json res = Some PNull"
  shows "loadReport tf (Response res) =
       \<lparr>app_status = StatusErr TypeError, tableContainer = None, summaryRowA = []\<rparr>"
  using assms by (simp add: loadReport_def buildTable_def)

lemma loadReport_NotIterable:
  assumes "res_ok res" and "res_json res = Some (PObject (Some sess))"
    and "(k, NotIterable) \<in> set sess"
  shows "loadReport tf (Response res) =
       \<lparr>app_status = StatusErr TypeError, tableContainer = None, summaryRowA = []\<rparr>"
  using assms tableRows_NotIterable [OF assms(3)]
  by (simp add: loadReport_def buildTable_def)

lemma loadNakshatra_NotIterable:
  assumes "date \<noteq> []" and "res_ok res" and "res_json res = Some (PObject (Some sess))"
    and "(k, NotIterable) \<in> set sess"
  shows "nak_status (loadNakshatra numText date tf (Response res)) = StatusErr TypeError
     \<and> summaryRow (loadNakshatra numText date tf (Response res)) = []"
proof -
  obtain tbody where "buildNakshatraRows numText sess [] = (tbody, Some TypeError)"
    using buildNakshatraRows_NotIterable [OF assms(4), of numText "[]"]
    by (cases "buildNakshatraRows numText sess []") auto
  with assms(1,2,3) show ?thesis by (simp add: loadNakshatra_def)
qed

text \<open>
  After a session that cannot be iterated, the rows of the sessions before it stay in
  the table body of the nakshatra view: they were appended as they were built.
\<close>

lemma loadNakshatra_rows_before_error:
  "loadNakshatra (\<lambda>x. []) ''2024-01-01'' ''1h''
      (Response \<lparr>res_status = 200, res_text = [],
         res_json = Some (PObject (Some [(''asia'', Rows [[(''bias'', Str ''bull'')]]), (''london'', NotIterable)]))\<rparr>)
     = \<lparr>nak_status = StatusErr TypeError,
        nakBody = [\<lparr>sessCell = ''ASIA'', biasCls = ''bias-bull'', qualCls = []\<rparr>],
        summaryRow = []\<rparr>"
  by code_simp

text \<open>
  Claim C8, as the code has it. The report view does not treat a missing \<open>sessions\<close> field
  as an error: \<open>data.sessions || {}\<close> reads it as an empty mapping, and the load ends with
  the OK status, an empty table and the "No rows" placeholder.
\<close>

theorem loadReport_missing_sessions_ok:
  "loadReport ''1h'' (Response \<lparr>res_status = 200, res_text = ''{}'', res_json = Some (PObject None)\<rparr>)
     = \<lparr>app_status = StatusOk, tableContainer = Some [], summaryRowA = [NoRowsPill]\<rparr>"
proof -
  have "res_ok \<lparr>res_status = 200, res_text = ''{}'', res_json = Some (PObject None)\<rparr>"
    by (simp add: res_ok_def)
  then show ?thesis by (simp add: loadReport_no_sessions)
qed

text \<open>
  Claim C8, amended. A payload that is \<open>null\<close> or has no \<open>sessions\<close> field makes
  \<open>loadNakshatra\<close> stop with the error "No session data returned from API." and an empty
  page. \<open>loadReport\<close> reads a missing \<open>sessions\<close> field as an empty mapping (OK status,
  empty table, placeholder pill) and stops with a TypeError and an empty page on a \<open>null\<close>
  payload. A session whose value cannot be iterated makes both views stop with a
  TypeError; \<open>loadReport\<close> then shows nothing, and \<open>loadNakshatra\<close> shows no summary.
\<close>

theorem shape_errors:
  "(date \<noteq> [] \<and> res_ok res \<and> (res_json res = Some PNull \<or> res_json res = Some (PObject None)) \<longrightarrow>
      loadNakshatra numText date tf (Response res) =
        \<lparr>nak_status = StatusErr (Error ''No session data returned from API.''),
         nakBody = [], summaryRow = []\<rparr>)
   \<and> (res_ok res \<and> res_json res = Some (PObject None) \<longrightarrow>
      loadReport tf (Response res) =
        \<lparr>app_status = StatusOk, tableContainer = Some [], summaryRowA = [NoRowsPill]\<rparr>)
   \<and> (res_ok res \<and> res_json res = Some PNull \<longrightarrow>
      loadReport tf (Response res) =
        \<lparr>app_status = StatusErr TypeError, tableContainer = None, summaryRowA = []\<rparr>)
   \<and> (res_ok res \<and> res_json res = Some (PObject (Some sess)) \<and> (k, NotIterable) \<in> set sess \<longrightarrow>
      loadReport tf (Response res) =
        \<lparr>app_status = StatusErr TypeError, tableContainer = None, summaryRowA = []\<rparr>)
   \<and> (date \<noteq> [] \<and> res_ok res \<and> res_json res = Some (PObject (Some sess))
        \<and> (k, NotIterable) \<in> set sess \<longrightarrow>
      nak_status (loadNakshatra numText date tf (Response res)) = StatusErr TypeError
      \<and> summaryRow (loadNakshatra numText date tf (Response res)) = [])"
  using loadNakshatra_no_sessions [of date res numText tf]
    loadReport_no_sessions [of res tf] loadReport_null [of res tf]
    loadReport_NotIterable [of res sess k tf]
    loadNakshatra_NotIterable [of date res sess k numText tf]
  by blast

theorem shape_errors_witness:
  "loadNakshatra (\<lambda>x. []) ''2024-01-01'' ''1h''
      (Response \<lparr>res_status = 200, res_text = ''{}'', res_json = Some (PObject None)\<rparr>)
     = \<lparr>nak_status = StatusErr (Error ''No session data returned from API.''),
        nakBody = [], summaryRow = []\<rparr>
   \<and> loadReport ''1h'' (Response \<lparr>res_status = 200, res_text = ''{}'', res_json = Some (PObject None)\<rparr>)
     = \<lparr>app_status = StatusOk, tableContainer = Some [], summaryRowA = [NoRowsPill]\<rparr>
   \<and> loadReport ''1h'' (Response \<lparr>res_status = 200, res_text = ''null'', res_json = Some PNull\<rparr>)
     = \<lparr>app_status = StatusErr TypeError, tableContainer = None, summaryRowA = []\<rparr>
   \<and> loadReport ''1h''
      (Response \<lparr>res_status = 200, res_text = [],
         res_json = Some (PObject (Some [(''asia'', Rows [[(''bias'', Str ''bull'')]]), (''london'', NotIterable)]))\<rparr>)
     = \<lparr>app_status = StatusErr TypeError, tableContainer = None, summaryRowA = []\<rparr>
   \<and> nak_status (loadNakshatra (\<lambda>x. []) ''2024-01-01'' ''1h''
      (Response \<lparr>res_status = 200, res_text = [],
         res_json = Some (PObject (Some [(''asia'', Rows [[(''bias'', Str ''bull'')]]), (''london'', NotIterable)]))\<rparr>))
     = StatusErr TypeError"
proof -
  let ?nt = "\<lambda>x::real. ([]::string)"
  let ?r1 = "\<lparr>res_status = 200, res_text = ''{}'', res_json = Some (PObject None)\<rparr>"
  let ?r2 = "\<lparr>res_status = 200, res_text = ''null'', res_json = Some PNull\<rparr>"
  let ?sess = "[(''asia'', Rows [[(''bias'', Str ''bull'')]]), (''london'', NotIterable)]"
  let ?r3 = "\<lparr>res_status = 200, res_text = [], res_json = Some (PObject (Some ?sess))\<rparr>"
  have d: "''2024-01-01'' \<noteq> []" by simp
  have ok: "res_ok ?r1" "res_ok ?r2" "res_ok ?r3" by (simp_all add: res_ok_def)
  have j: "res_json ?r1 = Some (PObject None)" "res_json ?r2 = Some PNull"
    "res_json ?r3 = Some (PObject (Some ?sess))" by simp_all
  have m: "(''london'', NotIterable) \<in> set ?sess" by simp
  have 1: "loadNakshatra ?nt ''2024-01-01'' ''1h'' (Response ?r1)
     = \<lparr>nak_status = StatusErr (Error ''No session data returned from API.''),
        nakBody = [], summaryRow = []\<rparr>"
    using shape_errors [of "''2024-01-01''" ?r1 ?nt "''1h''" ?sess "''london''"] d ok(1) j(1) by blast
  have 2: "loadReport ''1h'' (Response ?r1)
     = \<lparr>app_status = StatusOk, tableContainer = Some [], summaryRowA = [NoRowsPill]\<rparr>"
    using shape_errors [of "''2024-01-01''" ?r1 ?nt "''1h''" ?sess "''london''"] ok(1) j(1) by blast
  have 3: "loadReport ''1h'' (Response ?r2)
     = \<lparr>app_status = StatusErr TypeError, tableContainer = None, summaryRowA = []\<rparr>"
    using shape_errors [of "''2024-01-01''" ?r2 ?nt "''1h''" ?sess "''london''"] ok(2) j(2) by blast
  have 4: "loadReport ''1h'' (Response ?r3)
     = \<lparr>app_status = StatusErr TypeError, tableContainer = None, summaryRowA = []\<rparr>"
    using shape_errors [of "''2024-01-01''" ?r3 ?nt "''1h''" ?sess "''london''"] ok(3) j(3) m by blast
  have 5: "nak_status (loadNakshatra ?nt ''2024-01-01'' ''1h'' (Response ?r3)) = StatusErr TypeError"
    using shape_errors [of "''2024-01-01''" ?r3 ?nt "''1h''" ?sess "''london''"] d ok(3) j(3) m by blast
  from 1 2 3 4 5 show ?thesis by blast
qed

end
